theory Spec2Isabelle
  imports Main
begin

section \<open>Python values of an event\<close>

text \<open>
  The Lambda function of \<^verbatim>\<open>src/Exercise-2/lambda_function.py\<close> receives its event as a
  decoded JSON document: nested dictionaries, lists, strings, numbers, booleans and None.
  A dictionary is an association list that is read through \<open>map_of\<close>. Of a number the
  code only ever uses whether it is zero and that it is neither a string nor a dictionary,
  so every number is an \<open>int\<close>.
\<close>

datatype json =
    JNull
  | JBool bool
  | JNum int
  | JStr string
  | JArr "json list"
  | JObj "(string \<times> json) list"

text \<open>
  The exceptions that can reach \<^verbatim>\<open>process_event\<close>: the interpreter's AttributeError
  (a method such as \<^verbatim>\<open>.get\<close> or \<^verbatim>\<open>.split\<close> called on a value that has none), its
  TypeError (\<^verbatim>\<open>in\<close> or \<^verbatim>\<open>for\<close> over a value that is no container), its IndexError,
  botocore's ClientError with the error code of the response and its text, and any other
  exception a client call raises, with its text.
\<close>

datatype py_exception =
    AttributeError
  | TypeError
  | IndexError
  | ClientError string string
  | OtherException string

text \<open>Sequencing of computations that may raise: the first exception ends the chain.\<close>

definition bind_exc :: "py_exception + 'a \<Rightarrow> ('a \<Rightarrow> py_exception + 'b) \<Rightarrow> py_exception + 'b" where
  "bind_exc m f = (case m of Inl e \<Rightarrow> Inl e | Inr v \<Rightarrow> f v)"

text \<open>\<^verbatim>\<open>d.get(k, default)\<close>: only a dictionary has the method.\<close>

fun py_get :: "json \<Rightarrow> string \<Rightarrow> json \<Rightarrow> py_exception + json" where
  "py_get (JObj kvs) k dflt = Inr (case map_of kvs k of None \<Rightarrow> dflt | Some v \<Rightarrow> v)"
| "py_get _ k dflt = Inl AttributeError"

text \<open>Truth value of a Python object, as \<^verbatim>\<open>if x:\<close> and \<^verbatim>\<open>not x\<close> test it.\<close>

fun py_truthy :: "json \<Rightarrow> bool" where
  "py_truthy JNull = False"
| "py_truthy (JBool b) = b"
| "py_truthy (JNum n) = (n \<noteq> 0)"
| "py_truthy (JStr s) = (s \<noteq> [])"
| "py_truthy (JArr xs) = (xs \<noteq> [])"
| "py_truthy (JObj kvs) = (kvs \<noteq> [])"

text \<open>
  \<^verbatim>\<open>for x in v\<close>: the elements of a list, the keys of a dictionary, the characters of a
  string; anything else is not iterable.
\<close>

fun py_iter :: "json \<Rightarrow> py_exception + json list" where
  "py_iter (JArr xs) = Inr xs"
| "py_iter (JObj kvs) = Inr (map (\<lambda>kv. JStr (fst kv)) kvs)"
| "py_iter (JStr s) = Inr (map (\<lambda>c. JStr [c]) s)"
| "py_iter _ = Inl TypeError"

text \<open>\<^verbatim>\<open>s.split(c)\<close> for a separator of one character: never an empty list.\<close>

fun split_on :: "char \<Rightarrow> string \<Rightarrow> string list" where
  "split_on c [] = [[]]"
| "split_on c (x # xs) =
     (if x = c then [] # split_on c xs
      else (case split_on c xs of [] \<Rightarrow> [[x]] | p # ps \<Rightarrow> (x # p) # ps))"

fun py_split :: "json \<Rightarrow> char \<Rightarrow> py_exception + string list" where
  "py_split (JStr s) c = Inr (split_on c s)"
| "py_split _ c = Inl AttributeError"

text \<open>
  \<^verbatim>\<open>c in v\<close> for a one-character string \<open>c\<close>: a substring test on a string, an element
  test on a list, a key test on a dictionary.
\<close>

fun py_contains :: "char \<Rightarrow> json \<Rightarrow> py_exception + bool" where
  "py_contains c (JStr s) = Inr (c \<in> set s)"
| "py_contains c (JArr xs) = Inr (JStr [c] \<in> set xs)"
| "py_contains c (JObj kvs) = Inr ([c] \<in> fst ` set kvs)"
| "py_contains c _ = Inl TypeError"

text \<open>\<^verbatim>\<open>v.startswith(p)\<close>.\<close>

fun py_startswith :: "json \<Rightarrow> string \<Rightarrow> py_exception + bool" where
  "py_startswith (JStr s) p = Inr (take (length p) s = p)"
| "py_startswith _ p = Inl AttributeError"

section \<open>Configuration\<close>

text \<open>A tag dictionary: keys are unique and their order is of no consequence.\<close>

type_synonym tagset = "string \<rightharpoonup> json"

text \<open>
  \<^verbatim>\<open>CONFIG\<close> is built once from the process environment. Its entry
  \<^verbatim>\<open>max_retry_attempts\<close> is read nowhere in the module and is left out.
\<close>

record config =
  excluded_services :: "string list"
  default_tags :: tagset

definition CONFIG :: "(string \<rightharpoonup> string) \<Rightarrow> config" where
  "CONFIG environ =
     \<lparr> excluded_services =
         split_on CHR '','' (case environ ''EXCLUDED_SERVICES'' of
                               None \<Rightarrow> ''cloudtrail,logs'' | Some s \<Rightarrow> s),
       default_tags = [''AutoTagged'' \<mapsto> JStr ''true'', ''ManagedBy'' \<mapsto> JStr ''AutoTagger''] \<rparr>"

section \<open>Identity extraction\<close>

text \<open>
  \<^verbatim>\<open>get_user_identity\<close>. The argument \<open>now\<close> is what
  \<^verbatim>\<open>datetime.utcnow().isoformat()\<close> returns at the moment of the call, and
  \<open>session_issuer_name\<close> is the expression
  \<^verbatim>\<open>user_identity.get('sessionContext', {}).get('sessionIssuer', {}).get('userName')\<close>.
\<close>

definition session_issuer_name :: "json \<Rightarrow> py_exception + json" where
  "session_issuer_name user_identity =
     bind_exc (py_get user_identity ''sessionContext'' (JObj [])) (\<lambda>session_context.
     bind_exc (py_get session_context ''sessionIssuer'' (JObj [])) (\<lambda>session_issuer.
     py_get session_issuer ''userName'' JNull))"

definition get_user_identity :: "string \<Rightarrow> json \<Rightarrow> py_exception + tagset" where
  "get_user_identity now event =
     bind_exc (py_get event ''detail'' (JObj [])) (\<lambda>detail.
     bind_exc (py_get detail ''userIdentity'' (JObj [])) (\<lambda>user_identity.
     bind_exc (py_get user_identity ''arn'' (JStr ''unknown'')) (\<lambda>arn.
     bind_exc (py_get user_identity ''type'' (JStr ''unknown'')) (\<lambda>created_by_type.
     bind_exc (py_get user_identity ''accountId'' (JStr ''unknown'')) (\<lambda>account_id.
     bind_exc (py_get detail ''eventTime'' (JStr (now @ ''Z''))) (\<lambda>created_at.
     let identity_info =
           [''CreatedBy'' \<mapsto> arn,
            ''CreatedByUser'' \<mapsto> JStr ''unknown'',
            ''CreatedByType'' \<mapsto> created_by_type,
            ''CreatedByAccountId'' \<mapsto> account_id,
            ''CreatedAt'' \<mapsto> created_at]
     in
     bind_exc (py_get user_identity ''type'' JNull) (\<lambda>ty.
     if ty = JStr ''IAMUser'' then
       bind_exc (py_get user_identity ''userName'' (JStr ''unknown'')) (\<lambda>user_name.
       Inr (identity_info(''CreatedByUser'' \<mapsto> user_name)))
     else if ty = JStr ''AssumedRole'' then
       bind_exc (session_issuer_name user_identity) (\<lambda>session_name.
       if \<not> py_truthy session_name then
         bind_exc (py_split arn CHR ''/'') (\<lambda>arn_parts.
         Inr (identity_info(''CreatedByUser'' \<mapsto>
                JStr (if arn_parts \<noteq> [] then last arn_parts else ''unknown''))))
       else Inr (identity_info(''CreatedByUser'' \<mapsto> session_name)))
     else if ty = JStr ''Root'' then
       Inr (identity_info(''CreatedByUser'' \<mapsto> JStr ''root''))
     else Inr identity_info)))))))"

section \<open>The cloud the clients talk to\<close>

text \<open>
  The boto3 clients are not part of the repository. What the module can observe of them is
  modelled by a state \<open>aws\<close>: the calls made so far in order, the tags every resource
  carries, the identifiers that the two lookup calls resolve to, and \<open>faults\<close>, which says
  for a call and the calls made before it whether the call raises and what. The client
  cache \<^verbatim>\<open>CLIENTS\<close> of \<^verbatim>\<open>get_client\<close> only memoises client construction; construction
  is taken to succeed and the region of the client is recorded with each call.
\<close>

datatype service = EC2 | S3 | RDS | Lambda | DynamoDB

datatype api_call =
    CreateTags json json tagset
  | GetBucketTagging json json
  | PutBucketTagging json json tagset
  | AddTagsToResource json json tagset
  | GetFunction json json
  | LambdaTagResource json json tagset
  | DescribeTable json json
  | DynamoDBTagResource json json tagset

record aws =
  calls :: "api_call list"
  faults :: "api_call list \<Rightarrow> api_call \<Rightarrow> py_exception option"
  tagstore :: "service \<times> json \<rightharpoonup> tagset"
  function_arns :: "json \<Rightarrow> json"
  table_arns :: "json \<Rightarrow> json"

text \<open>Every call is logged, then either raises what \<open>faults\<close> says or goes through.\<close>

definition invoke :: "api_call \<Rightarrow> aws \<Rightarrow> py_exception option \<times> aws" where
  "invoke c w = (faults w (calls w) c, w\<lparr>calls := calls w @ [c]\<rparr>)"

text \<open>The tagging calls of every service but S3 add to the tags a resource has.\<close>

definition upsert_tags :: "service \<Rightarrow> json \<Rightarrow> tagset \<Rightarrow> aws \<Rightarrow> aws" where
  "upsert_tags svc rid tags w =
     w\<lparr>tagstore := (tagstore w)((svc, rid) \<mapsto>
          (case tagstore w (svc, rid) of None \<Rightarrow> tags | Some old \<Rightarrow> old ++ tags))\<rparr>"

definition tagging_call :: "api_call \<Rightarrow> service \<Rightarrow> json \<Rightarrow> tagset \<Rightarrow> aws \<Rightarrow> (py_exception + unit) \<times> aws" where
  "tagging_call c svc rid tags w =
     (case invoke c w of
        (Some e, w') \<Rightarrow> (Inl e, w')
      | (None, w') \<Rightarrow> (Inr (), upsert_tags svc rid tags w'))"

text \<open>
  S3: reading the tags of a bucket that has none raises ClientError with the code
  NoSuchTagSet; writing replaces the whole tag collection of the bucket.
\<close>

definition get_bucket_tagging :: "json \<Rightarrow> json \<Rightarrow> aws \<Rightarrow> (py_exception + tagset) \<times> aws" where
  "get_bucket_tagging region bucket w =
     (case invoke (GetBucketTagging region bucket) w of
        (Some e, w') \<Rightarrow> (Inl e, w')
      | (None, w') \<Rightarrow>
          (case tagstore w' (S3, bucket) of
             None \<Rightarrow> (Inl (ClientError ''NoSuchTagSet'' ''The TagSet does not exist''), w')
           | Some ts \<Rightarrow> (Inr ts, w')))"

definition put_bucket_tagging :: "json \<Rightarrow> json \<Rightarrow> tagset \<Rightarrow> aws \<Rightarrow> (py_exception + unit) \<times> aws" where
  "put_bucket_tagging region bucket tag_set w =
     (case invoke (PutBucketTagging region bucket tag_set) w of
        (Some e, w') \<Rightarrow> (Inl e, w')
      | (None, w') \<Rightarrow> (Inr (), w'\<lparr>tagstore := (tagstore w')((S3, bucket) \<mapsto> tag_set)\<rparr>))"

text \<open>The lookup calls return the identifier the cloud holds for a name.\<close>

definition get_function :: "json \<Rightarrow> json \<Rightarrow> aws \<Rightarrow> (py_exception + json) \<times> aws" where
  "get_function region function_name w =
     (case invoke (GetFunction region function_name) w of
        (Some e, w') \<Rightarrow> (Inl e, w')
      | (None, w') \<Rightarrow> (Inr (function_arns w' function_name), w'))"

definition describe_table :: "json \<Rightarrow> json \<Rightarrow> aws \<Rightarrow> (py_exception + json) \<times> aws" where
  "describe_table region table_name w =
     (case invoke (DescribeTable region table_name) w of
        (Some e, w') \<Rightarrow> (Inl e, w')
      | (None, w') \<Rightarrow> (Inr (table_arns w' table_name), w'))"

section \<open>Tag applicators\<close>

text \<open>
  Each \<^verbatim>\<open>tag_*\<close> function catches ClientError only to log it and raises it again, so
  what the caller sees is what the client call did. Log lines are not modelled.
\<close>

definition tag_ec2_resource :: "json \<Rightarrow> string \<Rightarrow> tagset \<Rightarrow> json \<Rightarrow> aws \<Rightarrow> (py_exception + unit) \<times> aws" where
  "tag_ec2_resource resource_id resource_type tags region w =
     tagging_call (CreateTags region resource_id tags) EC2 resource_id tags w"

definition tag_s3_bucket :: "json \<Rightarrow> tagset \<Rightarrow> json \<Rightarrow> aws \<Rightarrow> (py_exception + unit) \<times> aws" where
  "tag_s3_bucket bucket_name tags region w =
     (case get_bucket_tagging region bucket_name w of
        (Inr existing_tags, w') \<Rightarrow> put_bucket_tagging region bucket_name (existing_tags ++ tags) w'
      | (Inl (ClientError code msg), w') \<Rightarrow>
          if code = ''NoSuchTagSet''
          then put_bucket_tagging region bucket_name (Map.empty ++ tags) w'
          else (Inl (ClientError code msg), w')
      | (Inl e, w') \<Rightarrow> (Inl e, w'))"

definition tag_rds_resource :: "json \<Rightarrow> tagset \<Rightarrow> json \<Rightarrow> aws \<Rightarrow> (py_exception + unit) \<times> aws" where
  "tag_rds_resource resource_arn tags region w =
     tagging_call (AddTagsToResource region resource_arn tags) RDS resource_arn tags w"

definition tag_lambda_function :: "json \<Rightarrow> tagset \<Rightarrow> json \<Rightarrow> aws \<Rightarrow> (py_exception + unit) \<times> aws" where
  "tag_lambda_function function_name tags region w =
     (case py_startswith function_name ''arn:'' of
        Inl e \<Rightarrow> (Inl e, w)
      | Inr False \<Rightarrow>
          (case get_function region function_name w of
             (Inl e, w') \<Rightarrow> (Inl e, w')
           | (Inr function_arn, w') \<Rightarrow>
               tagging_call (LambdaTagResource region function_arn tags) Lambda function_arn tags w')
      | Inr True \<Rightarrow>
          tagging_call (LambdaTagResource region function_name tags) Lambda function_name tags w)"

definition tag_dynamodb_table :: "json \<Rightarrow> tagset \<Rightarrow> json \<Rightarrow> aws \<Rightarrow> (py_exception + unit) \<times> aws" where
  "tag_dynamodb_table table_name tags region w =
     (case describe_table region table_name w of
        (Inl e, w') \<Rightarrow> (Inl e, w')
      | (Inr table_arn, w') \<Rightarrow>
          tagging_call (DynamoDBTagResource region table_arn tags) DynamoDB table_arn tags w')"

section \<open>The dispatcher\<close>

text \<open>
  An entry of \<^verbatim>\<open>tagged_resources\<close> is an f-string such as
  \<^verbatim>\<open>f"ec2:instance:{instance_id}"\<close>. It is kept as its two parts, the literal prefix and
  the value that is interpolated.
\<close>

type_synonym label = "string \<times> json"

text \<open>
  The three dictionaries \<^verbatim>\<open>process_event\<close> returns, one constructor each with the values
  of the dictionary's keys as arguments: \<^verbatim>\<open>{status: skipped, reason}\<close>,
  \<^verbatim>\<open>{status: success, tagged_resources, tags_applied, event_name, event_source}\<close> and
  \<^verbatim>\<open>{status: error, error, event_name, event_source}\<close>. The key \<^verbatim>\<open>error\<close> holds
  \<^verbatim>\<open>str(e)\<close>; the exception that renders to it is kept in its place.
\<close>

datatype result =
    Skipped string
  | Success "label list" tagset json json
  | DispatchError py_exception json json

text \<open>
  \<^verbatim>\<open>service = event_source.split('.')[0] if '.' in event_source else event_source\<close>
\<close>

definition service_of :: "json \<Rightarrow> py_exception + json" where
  "service_of event_source =
     bind_exc (py_contains CHR ''.'' event_source) (\<lambda>has_dot.
     if has_dot then
       bind_exc (py_split event_source CHR ''.'') (\<lambda>parts.
       case parts of [] \<Rightarrow> Inl IndexError | p # ps \<Rightarrow> Inr (JStr p))
     else Inr event_source)"

text \<open>
  The loop \<^verbatim>\<open>for instance in instances\<close> of the RunInstances branch; \<open>tagged\<close> is
  \<^verbatim>\<open>tagged_resources\<close> as it stands when the iteration starts.
\<close>

fun tag_instances :: "json list \<Rightarrow> tagset \<Rightarrow> json \<Rightarrow> label list \<Rightarrow> aws \<Rightarrow> (py_exception + label list) \<times> aws" where
  "tag_instances [] all_tags aws_region tagged w = (Inr tagged, w)"
| "tag_instances (instance # rest) all_tags aws_region tagged w =
     (case py_get instance ''instanceId'' JNull of
        Inl e \<Rightarrow> (Inl e, w)
      | Inr instance_id \<Rightarrow>
          if py_truthy instance_id then
            (case tag_ec2_resource instance_id ''instance'' all_tags aws_region w of
               (Inl e, w') \<Rightarrow> (Inl e, w')
             | (Inr u, w') \<Rightarrow>
                 tag_instances rest all_tags aws_region (tagged @ [(''ec2:instance:'', instance_id)]) w')
          else tag_instances rest all_tags aws_region tagged w)"

text \<open>
  The shape shared by the branches that tag one resource: the identifier is read from the
  event; if it is truthy the applicator runs and the resource is appended to
  \<^verbatim>\<open>tagged_resources\<close>, which is empty until then.
\<close>

definition tag_if_found :: "py_exception + json \<Rightarrow> (json \<Rightarrow> aws \<Rightarrow> (py_exception + unit) \<times> aws) \<Rightarrow> string \<Rightarrow> aws \<Rightarrow> (py_exception + label list) \<times> aws" where
  "tag_if_found found applicator prefix w =
     (case found of
        Inl e \<Rightarrow> (Inl e, w)
      | Inr rid \<Rightarrow>
          if py_truthy rid then
            (case applicator rid w of
               (Inl e, w') \<Rightarrow> (Inl e, w')
             | (Inr u, w') \<Rightarrow> (Inr [(prefix, rid)], w'))
          else (Inr [], w))"

text \<open>
  The body of the \<^verbatim>\<open>try\<close> block of \<^verbatim>\<open>process_event\<close>: the chain of
  \<^verbatim>\<open>if\<close>/\<^verbatim>\<open>elif\<close> branches in the order of the source. It returns
  \<^verbatim>\<open>tagged_resources\<close>, or the exception that left the block.
\<close>

definition tag_created :: "json \<Rightarrow> json \<Rightarrow> json \<Rightarrow> tagset \<Rightarrow> json \<Rightarrow> aws \<Rightarrow> (py_exception + label list) \<times> aws" where
  "tag_created detail event_name event_source all_tags aws_region w =
     (if event_source = JStr ''ec2.amazonaws.com'' \<and> event_name = JStr ''RunInstances'' then
        (case py_get detail ''responseElements'' (JObj []) of
           Inl e \<Rightarrow> (Inl e, w)
         | Inr response_elements \<Rightarrow>
             if py_truthy response_elements then
               (case bind_exc (py_get response_elements ''instancesSet'' (JObj [])) (\<lambda>instances_set.
                     bind_exc (py_get instances_set ''items'' (JArr [])) py_iter) of
                  Inl e \<Rightarrow> (Inl e, w)
                | Inr instances \<Rightarrow> tag_instances instances all_tags aws_region [] w)
             else (Inr [], w))
      else if event_source = JStr ''ec2.amazonaws.com'' \<and> event_name = JStr ''CreateVolume'' then
        tag_if_found
          (bind_exc (py_get detail ''responseElements'' (JObj [])) (\<lambda>response_elements.
           py_get response_elements ''volumeId'' JNull))
          (\<lambda>volume_id. tag_ec2_resource volume_id ''volume'' all_tags aws_region)
          ''ec2:volume:'' w
      else if event_source = JStr ''ec2.amazonaws.com'' \<and> event_name = JStr ''CreateSecurityGroup'' then
        tag_if_found
          (bind_exc (py_get detail ''responseElements'' (JObj [])) (\<lambda>response_elements.
           py_get response_elements ''groupId'' JNull))
          (\<lambda>group_id. tag_ec2_resource group_id ''security-group'' all_tags aws_region)
          ''ec2:security-group:'' w
      else if event_source = JStr ''s3.amazonaws.com'' \<and> event_name = JStr ''CreateBucket'' then
        tag_if_found
          (bind_exc (py_get detail ''requestParameters'' (JObj [])) (\<lambda>request_parameters.
           py_get request_parameters ''bucketName'' JNull))
          (\<lambda>bucket_name. tag_s3_bucket bucket_name all_tags aws_region)
          ''s3:bucket:'' w
      else if event_source = JStr ''rds.amazonaws.com''
              \<and> (event_name = JStr ''CreateDBInstance'' \<or> event_name = JStr ''CreateDBCluster'') then
        (if event_name = JStr ''CreateDBInstance'' then
           tag_if_found
             (bind_exc (py_get detail ''responseElements'' (JObj [])) (\<lambda>response_elements.
              py_get response_elements ''dBInstanceArn'' JNull))
             (\<lambda>db_instance. tag_rds_resource db_instance all_tags aws_region)
             ''rds:instance:'' w
         else
           tag_if_found
             (bind_exc (py_get detail ''responseElements'' (JObj [])) (\<lambda>response_elements.
              py_get response_elements ''dBClusterArn'' JNull))
             (\<lambda>db_cluster. tag_rds_resource db_cluster all_tags aws_region)
             ''rds:cluster:'' w)
      else if event_source = JStr ''lambda.amazonaws.com'' \<and> event_name = JStr ''CreateFunction20150331'' then
        tag_if_found
          (bind_exc (py_get detail ''responseElements'' (JObj [])) (\<lambda>response_elements.
           py_get response_elements ''functionName'' JNull))
          (\<lambda>function_name. tag_lambda_function function_name all_tags aws_region)
          ''lambda:function:'' w
      else if event_source = JStr ''dynamodb.amazonaws.com'' \<and> event_name = JStr ''CreateTable'' then
        tag_if_found
          (bind_exc (py_get detail ''responseElements'' (JObj [])) (\<lambda>response_elements.
           bind_exc (py_get response_elements ''tableDescription'' (JObj [])) (\<lambda>table_description.
           py_get table_description ''tableName'' JNull)))
          (\<lambda>table_name. tag_dynamodb_table table_name all_tags aws_region)
          ''dynamodb:table:'' w
      else if event_source = JStr ''ec2.amazonaws.com'' \<and> event_name = JStr ''CreateVpc'' then
        tag_if_found
          (bind_exc (py_get detail ''responseElements'' (JObj [])) (\<lambda>response_elements.
           bind_exc (py_get response_elements ''vpc'' (JObj [])) (\<lambda>vpc.
           py_get vpc ''vpcId'' JNull)))
          (\<lambda>vpc_id. tag_ec2_resource vpc_id ''vpc'' all_tags aws_region)
          ''ec2:vpc:'' w
      else if event_source = JStr ''ec2.amazonaws.com'' \<and> event_name = JStr ''CreateSubnet'' then
        tag_if_found
          (bind_exc (py_get detail ''responseElements'' (JObj [])) (\<lambda>response_elements.
           bind_exc (py_get response_elements ''subnet'' (JObj [])) (\<lambda>subnet.
           py_get subnet ''subnetId'' JNull)))
          (\<lambda>subnet_id. tag_ec2_resource subnet_id ''subnet'' all_tags aws_region)
          ''ec2:subnet:'' w
      else (Inr [], w))"

text \<open>
  \<^verbatim>\<open>process_event\<close>. \<open>cfg\<close> is \<^verbatim>\<open>CONFIG\<close>, \<open>environ\<close> is \<^verbatim>\<open>os.environ\<close> and \<open>now\<close>
  the clock reading of the call. An exception raised before the \<^verbatim>\<open>try\<close> block leaves
  the function (\<open>Inl\<close>); one raised inside it becomes the error result.
  \<^verbatim>\<open>lambda_handler\<close> only wraps the outcome, a result in a response with status code 200
  and an exception in one with status code 500.
\<close>

definition process_event :: "config \<Rightarrow> (string \<rightharpoonup> string) \<Rightarrow> string \<Rightarrow> json \<Rightarrow> aws \<Rightarrow> (py_exception + result) \<times> aws" where
  "process_event cfg environ now event w =
     (case bind_exc (py_get event ''detail'' (JObj [])) (\<lambda>detail.
           bind_exc (py_get detail ''eventName'' (JStr [])) (\<lambda>event_name.
           bind_exc (py_get detail ''eventSource'' (JStr [])) (\<lambda>event_source.
           bind_exc (py_get detail ''awsRegion''
                       (JStr (case environ ''AWS_REGION'' of None \<Rightarrow> ''us-east-1'' | Some r \<Rightarrow> r))) (\<lambda>aws_region.
           bind_exc (service_of event_source) (\<lambda>service.
           Inr (detail, event_name, event_source, aws_region, service)))))) of
        Inl e \<Rightarrow> (Inl e, w)
      | Inr (detail, event_name, event_source, aws_region, service) \<Rightarrow>
          if service \<in> JStr ` set (excluded_services cfg) then
            (Inr (Skipped ''excluded_service''), w)
          else
            (case get_user_identity now event of
               Inl e \<Rightarrow> (Inl e, w)
             | Inr user_tags \<Rightarrow>
                 let all_tags = default_tags cfg ++ user_tags in
                 (case tag_created detail event_name event_source all_tags aws_region w of
                    (Inl e, w') \<Rightarrow> (Inr (DispatchError e event_name event_source), w')
                  | (Inr tagged_resources, w') \<Rightarrow>
                      (Inr (Success tagged_resources all_tags event_name event_source), w'))))"

section \<open>Notions used in the statements\<close>

text \<open>The value under the key \<^verbatim>\<open>status\<close> of a returned dictionary.\<close>

fun status :: "result \<Rightarrow> string" where
  "status (Skipped reason) = ''skipped''"
| "status (Success tagged tags event_name event_source) = ''success''"
| "status (DispatchError e event_name event_source) = ''error''"

text \<open>
  The pairs of event source and event name that a branch of the chain in
  \<^verbatim>\<open>process_event\<close> tests for.
\<close>

definition routed :: "json \<Rightarrow> json \<Rightarrow> bool" where
  "routed event_source event_name =
     (event_source = JStr ''ec2.amazonaws.com''
        \<and> event_name \<in> JStr ` {''RunInstances'', ''CreateVolume'', ''CreateSecurityGroup'',
                              ''CreateVpc'', ''CreateSubnet''}
      \<or> event_source = JStr ''s3.amazonaws.com'' \<and> event_name = JStr ''CreateBucket''
      \<or> event_source = JStr ''rds.amazonaws.com''
        \<and> event_name \<in> JStr ` {''CreateDBInstance'', ''CreateDBCluster''}
      \<or> event_source = JStr ''lambda.amazonaws.com'' \<and> event_name = JStr ''CreateFunction20150331''
      \<or> event_source = JStr ''dynamodb.amazonaws.com'' \<and> event_name = JStr ''CreateTable'')"

text \<open>
  \<^verbatim>\<open>process_event\<close> reaches its \<^verbatim>\<open>try\<close> block with the given values of its local
  variables \<^verbatim>\<open>detail\<close>, \<^verbatim>\<open>event_name\<close>, \<^verbatim>\<open>event_source\<close>, \<^verbatim>\<open>aws_region\<close> and
  \<^verbatim>\<open>all_tags\<close>: the event reads that way, its service is not excluded and identity
  extraction returns.
\<close>

definition enters_try :: "config \<Rightarrow> (string \<rightharpoonup> string) \<Rightarrow> string \<Rightarrow> json \<Rightarrow> json \<Rightarrow> json \<Rightarrow> json \<Rightarrow> json \<Rightarrow> tagset \<Rightarrow> bool" where
  "enters_try cfg environ now event detail event_name event_source aws_region all_tags =
     (py_get event ''detail'' (JObj []) = Inr detail
      \<and> py_get detail ''eventName'' (JStr []) = Inr event_name
      \<and> py_get detail ''eventSource'' (JStr []) = Inr event_source
      \<and> py_get detail ''awsRegion''
           (JStr (case environ ''AWS_REGION'' of None \<Rightarrow> ''us-east-1'' | Some r \<Rightarrow> r)) = Inr aws_region
      \<and> (case service_of event_source of
            Inl e \<Rightarrow> False
          | Inr service \<Rightarrow> service \<notin> JStr ` set (excluded_services cfg))
      \<and> (case get_user_identity now event of
            Inl e \<Rightarrow> False
          | Inr user_tags \<Rightarrow> all_tags = default_tags cfg ++ user_tags))"

text \<open>The event has a dictionary \<^verbatim>\<open>detail\<close> with the key \<^verbatim>\<open>eventTime\<close>.\<close>

definition has_event_time :: "json \<Rightarrow> bool" where
  "has_event_time event =
     (case py_get event ''detail'' (JObj []) of
        Inr (JObj d) \<Rightarrow> map_of d ''eventTime'' \<noteq> None
      | _ \<Rightarrow> False)"

text \<open>
  The EC2 resource named by an entry of \<^verbatim>\<open>tagged_resources\<close> carries every one of the
  given tags in the cloud.
\<close>

definition carries :: "tagset \<Rightarrow> aws \<Rightarrow> label \<Rightarrow> bool" where
  "carries tags w l =
     (case tagstore w (EC2, snd l) of None \<Rightarrow> False | Some ts \<Rightarrow> tags \<subseteq>\<^sub>m ts)"

section \<open>Sample events and clouds\<close>

text \<open>
  Concrete inputs on which the theorems below are exercised. \<open>sample_detail\<close> follows the
  test event at the end of the module.
\<close>

definition alice :: "(string \<times> json) list" where
  "alice = [(''type'', JStr ''IAMUser''),
            (''arn'', JStr ''arn:aws:iam::123456789012:user/alice''),
            (''accountId'', JStr ''123456789012''),
            (''userName'', JStr ''alice'')]"

definition role_with_issuer :: "(string \<times> json) list" where
  "role_with_issuer =
     [(''type'', JStr ''AssumedRole''),
      (''arn'', JStr ''arn:aws:sts::123456789012:assumed-role/Deploy/session-1''),
      (''accountId'', JStr ''123456789012''),
      (''sessionContext'', JObj [(''sessionIssuer'', JObj [(''userName'', JStr ''Deploy'')])])]"

definition role_without_issuer :: "(string \<times> json) list" where
  "role_without_issuer =
     [(''type'', JStr ''AssumedRole''),
      (''arn'', JStr ''arn:aws:sts::123456789012:assumed-role/Deploy/session-1''),
      (''accountId'', JStr ''123456789012'')]"

definition root_account :: "(string \<times> json) list" where
  "root_account = [(''type'', JStr ''Root''),
                   (''arn'', JStr ''arn:aws:iam::123456789012:root''),
                   (''accountId'', JStr ''123456789012'')]"

definition federated :: "(string \<times> json) list" where
  "federated = [(''type'', JStr ''FederatedUser''),
                (''arn'', JStr ''arn:aws:sts::123456789012:federated-user/carol''),
                (''accountId'', JStr ''123456789012'')]"

text \<open>
  Assumed roles whose identity is out of shape: a null session context, a null arn, and
  a session issuer whose user name is the empty string.
\<close>

definition role_null_context :: "(string \<times> json) list" where
  "role_null_context =
     [(''type'', JStr ''AssumedRole''),
      (''arn'', JStr ''arn:aws:sts::123456789012:assumed-role/Deploy/session-1''),
      (''accountId'', JStr ''123456789012''),
      (''sessionContext'', JNull)]"

definition role_null_arn :: "(string \<times> json) list" where
  "role_null_arn =
     [(''type'', JStr ''AssumedRole''),
      (''arn'', JNull),
      (''accountId'', JStr ''123456789012'')]"

definition role_empty_issuer :: "(string \<times> json) list" where
  "role_empty_issuer =
     [(''type'', JStr ''AssumedRole''),
      (''arn'', JStr ''arn:aws:sts::123456789012:assumed-role/Deploy/session-1''),
      (''accountId'', JStr ''123456789012''),
      (''sessionContext'', JObj [(''sessionIssuer'', JObj [(''userName'', JStr [])])])]"

text \<open>The identity tags of \<open>alice\<close> on a sample event.\<close>

definition alice_tags :: tagset where
  "alice_tags =
     [''CreatedBy'' \<mapsto> JStr ''arn:aws:iam::123456789012:user/alice'',
      ''CreatedByType'' \<mapsto> JStr ''IAMUser'',
      ''CreatedByAccountId'' \<mapsto> JStr ''123456789012'',
      ''CreatedAt'' \<mapsto> JStr ''2024-12-25T10:30:00Z'',
      ''CreatedByUser'' \<mapsto> JStr ''alice'']"

definition sample_detail :: "string \<Rightarrow> string \<Rightarrow> json \<Rightarrow> (string \<times> json) list \<Rightarrow> (string \<times> json) list" where
  "sample_detail event_source event_name user_identity body =
     [(''eventName'', JStr event_name),
      (''eventSource'', JStr event_source),
      (''awsRegion'', JStr ''us-east-1''),
      (''userIdentity'', user_identity),
      (''eventTime'', JStr ''2024-12-25T10:30:00Z'')] @ body"

definition sample_event :: "string \<Rightarrow> string \<Rightarrow> json \<Rightarrow> (string \<times> json) list \<Rightarrow> json" where
  "sample_event event_source event_name user_identity body =
     JObj [(''detail'', JObj (sample_detail event_source event_name user_identity body))]"

text \<open>The response elements of a launch of the instances with the given identifiers.\<close>

definition instances_body :: "string list \<Rightarrow> (string \<times> json) list" where
  "instances_body ids =
     [(''responseElements'',
       JObj [(''instancesSet'',
              JObj [(''items'', JArr (map (\<lambda>i. JObj [(''instanceId'', JStr i)]) ids))])])]"

text \<open>The response elements of the creation of a function with the given name.\<close>

definition function_body :: "string \<Rightarrow> (string \<times> json) list" where
  "function_body name = [(''responseElements'', JObj [(''functionName'', JStr name)])]"

text \<open>A launch of the instance i-100 whose event names neither a time nor an identity.\<close>

definition untimed_launch :: json where
  "untimed_launch =
     JObj [(''detail'', JObj ([(''eventName'', JStr ''RunInstances''),
                               (''eventSource'', JStr ''ec2.amazonaws.com'')]
                              @ instances_body [''i-100'']))]"

definition anonymous_tags :: "string \<Rightarrow> tagset" where
  "anonymous_tags now =
     [''CreatedBy'' \<mapsto> JStr ''unknown'',
      ''CreatedByUser'' \<mapsto> JStr ''unknown'',
      ''CreatedByType'' \<mapsto> JStr ''unknown'',
      ''CreatedByAccountId'' \<mapsto> JStr ''unknown'',
      ''CreatedAt'' \<mapsto> JStr (now @ ''Z'')]"


text \<open>A cloud without tags in which every call goes through.\<close>

definition cloud0 :: aws where
  "cloud0 = \<lparr> calls = [], faults = (\<lambda>h c. None), tagstore = Map.empty,
              function_arns = (\<lambda>n. JStr ''arn:aws:lambda:us-east-1:123456789012:function:f''),
              table_arns = (\<lambda>n. JStr ''arn:aws:dynamodb:us-east-1:123456789012:table/t'') \<rparr>"

text \<open>A cloud in which the bucket demo-bucket already carries two tags.\<close>

definition cloud_with_bucket :: aws where
  "cloud_with_bucket =
     cloud0\<lparr>tagstore := [(S3, JStr ''demo-bucket'') \<mapsto>
                           [''Team'' \<mapsto> JStr ''data'', ''AutoTagged'' \<mapsto> JStr ''false'']]\<rparr>"

text \<open>Clouds in which one kind of call raises a given exception.\<close>

definition lookup_fails :: "py_exception \<Rightarrow> api_call list \<Rightarrow> api_call \<Rightarrow> py_exception option" where
  "lookup_fails e h c = (case c of GetFunction region name \<Rightarrow> Some e | _ \<Rightarrow> None)"

definition lambda_tagging_fails :: "py_exception \<Rightarrow> api_call list \<Rightarrow> api_call \<Rightarrow> py_exception option" where
  "lambda_tagging_fails e h c = (case c of LambdaTagResource region arn tags \<Rightarrow> Some e | _ \<Rightarrow> None)"

definition rejects :: "json \<Rightarrow> py_exception \<Rightarrow> api_call list \<Rightarrow> api_call \<Rightarrow> py_exception option" where
  "rejects resource_id e h c =
     (case c of CreateTags region rid tags \<Rightarrow> if rid = resource_id then Some e else None
              | _ \<Rightarrow> None)"

text \<open>The cloud refuses to tag one instance, naming it as not found.\<close>

definition refusing :: "string \<Rightarrow> aws" where
  "refusing instance_id =
     cloud0\<lparr>faults := rejects (JStr instance_id)
                          (ClientError ''InvalidInstanceID.NotFound'' ''The instance ID does not exist'')\<rparr>"

text \<open>
  The cloud that refuses i-3, after the instances i-1 and i-2 were given the default and
  identity tags of \<open>alice\<close>.
\<close>

definition after_two :: aws where
  "after_two =
     (refusing ''i-3'')
       \<lparr>calls := [CreateTags (JStr ''us-east-1'') (JStr ''i-1'') (default_tags (CONFIG Map.empty) ++ alice_tags),
                  CreateTags (JStr ''us-east-1'') (JStr ''i-2'') (default_tags (CONFIG Map.empty) ++ alice_tags)],
        tagstore := [(EC2, JStr ''i-1'') \<mapsto> default_tags (CONFIG Map.empty) ++ alice_tags,
                     (EC2, JStr ''i-2'') \<mapsto> default_tags (CONFIG Map.empty) ++ alice_tags]\<rparr>"

section \<open>Basic facts\<close>

lemma split_on_not_Nil: "split_on c s \<noteq> []"
  by (induction s) (auto split: list.splits)

lemma hd_split_on: "hd (split_on c s) = takeWhile (\<lambda>x. x \<noteq> c) s"
  by (induction s) (auto split: list.splits simp: split_on_not_Nil)

lemma service_of_JStr:
  "service_of (JStr s) = Inr (JStr (takeWhile (\<lambda>x. x \<noteq> CHR ''.'') s))"
proof (cases "CHR ''.'' \<in> set s")
  case False
  then show ?thesis
    by (simp add: service_of_def bind_exc_def) (rule sym, auto)
next
  case True
  obtain p ps where ps: "split_on CHR ''.'' s = p # ps"
    using split_on_not_Nil [of "CHR ''.''" s] by (cases "split_on CHR ''.'' s") auto
  then have "p = takeWhile (\<lambda>x. x \<noteq> CHR ''.'') s"
    using hd_split_on [of "CHR ''.''" s] by simp
  with True ps show ?thesis
    by (simp add: service_of_def bind_exc_def)
qed

lemma CONFIG_default_excluded:
  "excluded_services (CONFIG Map.empty) = [''cloudtrail'', ''logs'']"
  by (simp add: CONFIG_def)

lemma sample_event_detail:
  "py_get (sample_event s n u b) ''detail'' (JObj []) = Inr (JObj (sample_detail s n u b))"
  by (simp add: sample_event_def)

lemma sample_detail_identity:
  "py_get (JObj (sample_detail s n u b)) ''userIdentity'' (JObj []) = Inr u"
  by (simp add: sample_detail_def)

section \<open>Excluded services\<close>

text \<open>
  C3. Whenever the text of \<^verbatim>\<open>eventSource\<close> before its first dot is one of the excluded
  services, \<^verbatim>\<open>process_event\<close> returns the skipped result and leaves the cloud as it
  found it: no call is made. Nothing is assumed of \<^verbatim>\<open>eventName\<close>, of the identity or of
  the rest of the event, so the result is reached before any of them is looked at. Without
  \<^verbatim>\<open>EXCLUDED_SERVICES\<close> in the environment the excluded services are cloudtrail and logs.
\<close>

theorem excluded_service_skipped:
  assumes "py_get event ''detail'' (JObj []) = Inr (JObj d)"
    and "map_of d ''eventSource'' = Some (JStr s)"
    and "takeWhile (\<lambda>c. c \<noteq> CHR ''.'') s \<in> set (excluded_services cfg)"
  shows "process_event cfg environ now event w = (Inr (Skipped ''excluded_service''), w)
         \<and> excluded_services (CONFIG Map.empty) = [''cloudtrail'', ''logs'']"
  using assms
  by (simp add: process_event_def bind_exc_def service_of_JStr CONFIG_default_excluded)

text \<open>
  An audit-trail event that names RunInstances, lists an instance and has a null identity,
  on which identity extraction alone would raise.
\<close>

theorem excluded_service_skipped_witness:
  "py_get (sample_event ''cloudtrail.amazonaws.com'' ''RunInstances'' JNull (instances_body [''i-100'']))
      ''detail'' (JObj [])
     = Inr (JObj (sample_detail ''cloudtrail.amazonaws.com'' ''RunInstances'' JNull (instances_body [''i-100''])))
   \<and> map_of (sample_detail ''cloudtrail.amazonaws.com'' ''RunInstances'' JNull (instances_body [''i-100'']))
        ''eventSource'' = Some (JStr ''cloudtrail.amazonaws.com'')
   \<and> takeWhile (\<lambda>c. c \<noteq> CHR ''.'') ''cloudtrail.amazonaws.com'' \<in> set (excluded_services (CONFIG Map.empty))
   \<and> get_user_identity ''2024-12-25T10:30:01''
        (sample_event ''cloudtrail.amazonaws.com'' ''RunInstances'' JNull (instances_body [''i-100'']))
     = Inl AttributeError
   \<and> process_event (CONFIG Map.empty) Map.empty ''2024-12-25T10:30:01''
        (sample_event ''cloudtrail.amazonaws.com'' ''RunInstances'' JNull (instances_body [''i-100''])) cloud0
     = (Inr (Skipped ''excluded_service''), cloud0)"
proof -
  have h1: "py_get (sample_event ''cloudtrail.amazonaws.com'' ''RunInstances'' JNull (instances_body [''i-100'']))
      ''detail'' (JObj [])
     = Inr (JObj (sample_detail ''cloudtrail.amazonaws.com'' ''RunInstances'' JNull (instances_body [''i-100''])))"
    by (simp add: sample_event_def)
  have h2: "map_of (sample_detail ''cloudtrail.amazonaws.com'' ''RunInstances'' JNull (instances_body [''i-100'']))
        ''eventSource'' = Some (JStr ''cloudtrail.amazonaws.com'')"
    by (simp add: sample_detail_def)
  have h3: "takeWhile (\<lambda>c. c \<noteq> CHR ''.'') ''cloudtrail.amazonaws.com'' \<in> set (excluded_services (CONFIG Map.empty))"
    by (simp add: CONFIG_def)
  have h4: "get_user_identity ''2024-12-25T10:30:01''
        (sample_event ''cloudtrail.amazonaws.com'' ''RunInstances'' JNull (instances_body [''i-100'']))
     = Inl AttributeError"
    by (simp add: get_user_identity_def bind_exc_def sample_event_def sample_detail_def)
  note c = excluded_service_skipped [OF h1 h2 h3, THEN conjunct1]
  show ?thesis
    by (intro conjI) (rule h1, rule h2, rule h3, rule h4, rule c)
qed

section \<open>Identity extraction: defaults and failures\<close>


lemma bind_py_split_cong:
  assumes "\<And>ps. ps \<noteq> [] \<Longrightarrow> f ps = g ps"
  shows "bind_exc (py_split x c) f = bind_exc (py_split x c) g"
  using assms by (cases x) (simp_all add: bind_exc_def split_on_not_Nil)

text \<open>
  On an event whose \<^verbatim>\<open>detail\<close> and \<^verbatim>\<open>userIdentity\<close> read as dictionaries (the empty one
  when the key is absent), extraction is the following function of the two.
\<close>

lemma get_user_identity_unfold:
  assumes "py_get event ''detail'' (JObj []) = Inr (JObj d)"
    and "py_get (JObj d) ''userIdentity'' (JObj []) = Inr (JObj u)"
  shows "get_user_identity now event =
     (let identity_info =
           [''CreatedBy'' \<mapsto> (case map_of u ''arn'' of None \<Rightarrow> JStr ''unknown'' | Some v \<Rightarrow> v),
            ''CreatedByUser'' \<mapsto> JStr ''unknown'',
            ''CreatedByType'' \<mapsto> (case map_of u ''type'' of None \<Rightarrow> JStr ''unknown'' | Some v \<Rightarrow> v),
            ''CreatedByAccountId'' \<mapsto> (case map_of u ''accountId'' of None \<Rightarrow> JStr ''unknown'' | Some v \<Rightarrow> v),
            ''CreatedAt'' \<mapsto> (case map_of d ''eventTime'' of None \<Rightarrow> JStr (now @ ''Z'') | Some v \<Rightarrow> v)]
      in
      if map_of u ''type'' = Some (JStr ''IAMUser'') then
        Inr (identity_info(''CreatedByUser'' \<mapsto>
               (case map_of u ''userName'' of None \<Rightarrow> JStr ''unknown'' | Some v \<Rightarrow> v)))
      else if map_of u ''type'' = Some (JStr ''AssumedRole'') then
        bind_exc (session_issuer_name (JObj u)) (\<lambda>session_name.
        if \<not> py_truthy session_name then
          bind_exc (py_split (case map_of u ''arn'' of None \<Rightarrow> JStr ''unknown'' | Some v \<Rightarrow> v) CHR ''/'')
            (\<lambda>arn_parts. Inr (identity_info(''CreatedByUser'' \<mapsto> JStr (last arn_parts))))
        else Inr (identity_info(''CreatedByUser'' \<mapsto> session_name)))
      else if map_of u ''type'' = Some (JStr ''Root'') then
        Inr (identity_info(''CreatedByUser'' \<mapsto> JStr ''root''))
      else Inr identity_info)"
proof -
  have shape: "get_user_identity now event =
      get_user_identity now
        (JObj [(''detail'',
                JObj [(''userIdentity'', JObj u),
                      (''eventTime'', (case map_of d ''eventTime'' of
                                          None \<Rightarrow> JStr (now @ ''Z'') | Some v \<Rightarrow> v))])])"
    using assms unfolding get_user_identity_def
    apply (simp del: py_get.simps add: bind_exc_def)
    apply simp
    done
  show ?thesis
    unfolding shape
    apply (cases "map_of u ''type''")
     apply (simp_all add: get_user_identity_def bind_exc_def Let_def)
    apply (auto split: sum.splits)
    apply (rule bind_py_split_cong)
    apply simp
    done
qed




section \<open>The applied tags\<close>


section \<open>The creator's display name\<close>

text \<open>
  C6, amended. On an event whose \<^verbatim>\<open>detail\<close> and \<^verbatim>\<open>userIdentity\<close> read as dictionaries, the
  value under \<^verbatim>\<open>CreatedByUser\<close> follows the ordered rule. For the type IAMUser it is the
  field \<^verbatim>\<open>userName\<close> of the identity ("unknown" without one). For AssumedRole, where
  \<^verbatim>\<open>sessionContext\<close> and, inside it, \<^verbatim>\<open>sessionIssuer\<close> are each absent or a dictionary, it is
  the field \<^verbatim>\<open>userName\<close> of the session issuer when that field holds a truthy value (a
  non-empty name); when it is absent, null or empty and the arn is absent or a string, it is
  the text of the arn after its last slash. For Root it is the word root. For any other
  type, or none, it is "unknown", with the type recorded as it is ("unknown" when missing).
\<close>

theorem display_name_rule:
  assumes "py_get event ''detail'' (JObj []) = Inr (JObj d)"
    and "py_get (JObj d) ''userIdentity'' (JObj []) = Inr (JObj u)"
  shows "(map_of u ''type'' = Some (JStr ''IAMUser'') \<longrightarrow>
            (\<exists>ident. get_user_identity now event = Inr ident
               \<and> ident ''CreatedByUser''
                   = Some (case map_of u ''userName'' of None \<Rightarrow> JStr ''unknown'' | Some v \<Rightarrow> v)))
       \<and> (map_of u ''type'' = Some (JStr ''AssumedRole'')
            \<and> (case map_of u ''sessionContext'' of None \<Rightarrow> JObj [] | Some v \<Rightarrow> v) = JObj sc
            \<and> (case map_of sc ''sessionIssuer'' of None \<Rightarrow> JObj [] | Some v \<Rightarrow> v) = JObj si
            \<and> map_of si ''userName'' = Some issuer_name \<and> py_truthy issuer_name \<longrightarrow>
            (\<exists>ident. get_user_identity now event = Inr ident
               \<and> ident ''CreatedByUser'' = Some issuer_name))
       \<and> (map_of u ''type'' = Some (JStr ''AssumedRole'')
            \<and> (case map_of u ''sessionContext'' of None \<Rightarrow> JObj [] | Some v \<Rightarrow> v) = JObj sc
            \<and> (case map_of sc ''sessionIssuer'' of None \<Rightarrow> JObj [] | Some v \<Rightarrow> v) = JObj si
            \<and> \<not> py_truthy (case map_of si ''userName'' of None \<Rightarrow> JNull | Some v \<Rightarrow> v)
            \<and> (case map_of u ''arn'' of None \<Rightarrow> JStr ''unknown'' | Some v \<Rightarrow> v) = JStr a \<longrightarrow>
            (\<exists>ident. get_user_identity now event = Inr ident
               \<and> ident ''CreatedByUser'' = Some (JStr (last (split_on CHR ''/'' a)))))
       \<and> (map_of u ''type'' = Some (JStr ''Root'') \<longrightarrow>
            (\<exists>ident. get_user_identity now event = Inr ident
               \<and> ident ''CreatedByUser'' = Some (JStr ''root'')))
       \<and> (map_of u ''type'' \<notin> {Some (JStr ''IAMUser''), Some (JStr ''AssumedRole''), Some (JStr ''Root'')} \<longrightarrow>
            (\<exists>ident. get_user_identity now event = Inr ident
               \<and> ident ''CreatedByUser'' = Some (JStr ''unknown'')
               \<and> ident ''CreatedByType''
                   = Some (case map_of u ''type'' of None \<Rightarrow> JStr ''unknown'' | Some v \<Rightarrow> v)))"
  unfolding get_user_identity_unfold [OF assms]
  by (auto simp: Let_def bind_exc_def session_issuer_name_def)

text \<open>
  The rule on five identities: an IAM user, an assumed role with and without a session
  issuer, the root account and a federated user.
\<close>

theorem display_name_rule_witness:
  "(\<exists>ident. get_user_identity ''2024-12-25T10:30:01''
        (sample_event ''ec2.amazonaws.com'' ''RunInstances'' (JObj alice) []) = Inr ident
      \<and> ident ''CreatedByUser'' = Some (JStr ''alice''))
   \<and> (\<exists>ident. get_user_identity ''2024-12-25T10:30:01''
        (sample_event ''ec2.amazonaws.com'' ''RunInstances'' (JObj role_with_issuer) []) = Inr ident
      \<and> ident ''CreatedByUser'' = Some (JStr ''Deploy''))
   \<and> (\<exists>ident. get_user_identity ''2024-12-25T10:30:01''
        (sample_event ''ec2.amazonaws.com'' ''RunInstances'' (JObj role_without_issuer) []) = Inr ident
      \<and> ident ''CreatedByUser'' = Some (JStr ''session-1''))
   \<and> (\<exists>ident. get_user_identity ''2024-12-25T10:30:01''
        (sample_event ''ec2.amazonaws.com'' ''RunInstances'' (JObj root_account) []) = Inr ident
      \<and> ident ''CreatedByUser'' = Some (JStr ''root''))
   \<and> (\<exists>ident. get_user_identity ''2024-12-25T10:30:01''
        (sample_event ''ec2.amazonaws.com'' ''RunInstances'' (JObj federated) []) = Inr ident
      \<and> ident ''CreatedByUser'' = Some (JStr ''unknown'')
      \<and> ident ''CreatedByType'' = Some (JStr ''FederatedUser''))"
proof -
  have c1: "\<exists>ident. get_user_identity ''2024-12-25T10:30:01''
        (sample_event ''ec2.amazonaws.com'' ''RunInstances'' (JObj alice) []) = Inr ident
      \<and> ident ''CreatedByUser'' = Some (JStr ''alice'')"
    using display_name_rule [where u = alice and now = "''2024-12-25T10:30:01''",
                OF sample_event_detail sample_detail_identity, THEN conjunct1]
    by (simp add: alice_def)
  have c2: "\<exists>ident. get_user_identity ''2024-12-25T10:30:01''
        (sample_event ''ec2.amazonaws.com'' ''RunInstances'' (JObj role_with_issuer) []) = Inr ident
      \<and> ident ''CreatedByUser'' = Some (JStr ''Deploy'')"
    using display_name_rule [where u = role_with_issuer and now = "''2024-12-25T10:30:01''"
                and sc = "[(''sessionIssuer'', JObj [(''userName'', JStr ''Deploy'')])]"
                and si = "[(''userName'', JStr ''Deploy'')]"
                and issuer_name = "JStr ''Deploy''",
                OF sample_event_detail sample_detail_identity,
                THEN conjunct2, THEN conjunct1]
    by (simp add: role_with_issuer_def)
  have seg: "last (split_on CHR ''/'' ''arn:aws:sts::123456789012:assumed-role/Deploy/session-1'') = ''session-1''"
    by simp
  have c3: "\<exists>ident. get_user_identity ''2024-12-25T10:30:01''
        (sample_event ''ec2.amazonaws.com'' ''RunInstances'' (JObj role_without_issuer) []) = Inr ident
      \<and> ident ''CreatedByUser'' = Some (JStr ''session-1'')"
    using display_name_rule [where u = role_without_issuer and now = "''2024-12-25T10:30:01''"
                and sc = "[]" and si = "[]"
                and a = "''arn:aws:sts::123456789012:assumed-role/Deploy/session-1''",
                OF sample_event_detail sample_detail_identity,
                THEN conjunct2, THEN conjunct2, THEN conjunct1]
    unfolding seg
    by (simp add: role_without_issuer_def)
  have c4: "\<exists>ident. get_user_identity ''2024-12-25T10:30:01''
        (sample_event ''ec2.amazonaws.com'' ''RunInstances'' (JObj root_account) []) = Inr ident
      \<and> ident ''CreatedByUser'' = Some (JStr ''root'')"
    using display_name_rule [where u = root_account and now = "''2024-12-25T10:30:01''",
                OF sample_event_detail sample_detail_identity,
                THEN conjunct2, THEN conjunct2, THEN conjunct2, THEN conjunct1]
    by (simp add: root_account_def)
  have c5: "\<exists>ident. get_user_identity ''2024-12-25T10:30:01''
        (sample_event ''ec2.amazonaws.com'' ''RunInstances'' (JObj federated) []) = Inr ident
      \<and> ident ''CreatedByUser'' = Some (JStr ''unknown'')
      \<and> ident ''CreatedByType'' = Some (JStr ''FederatedUser'')"
    using display_name_rule [where u = federated and now = "''2024-12-25T10:30:01''",
                OF sample_event_detail sample_detail_identity,
                THEN conjunct2, THEN conjunct2, THEN conjunct2, THEN conjunct2]
    by (simp add: federated_def)
  show ?thesis
    by (intro conjI) (rule c1, rule c2, rule c3, rule c4, rule c5)
qed

text \<open>
  C6 as stated fails. For an assumed role with a null session context, and for one with a
  null arn and no session issuer, the rule prescribes the last segment of the arn, and
  extraction raises AttributeError instead. For an assumed role whose session issuer has
  the empty string as user name, that name is present and the value is the last segment
  of the arn all the same.
\<close>

theorem display_name_counterexample:
  "get_user_identity ''2024-12-25T10:30:01''
      (sample_event ''ec2.amazonaws.com'' ''RunInstances'' (JObj role_null_context) [])
     = Inl AttributeError
   \<and> get_user_identity ''2024-12-25T10:30:01''
        (sample_event ''ec2.amazonaws.com'' ''RunInstances'' (JObj role_null_arn) [])
     = Inl AttributeError
   \<and> map_of [(''userName'', JStr [])] ''userName'' = Some (JStr [])
   \<and> get_user_identity ''2024-12-25T10:30:01''
        (sample_event ''ec2.amazonaws.com'' ''RunInstances'' (JObj role_empty_issuer) [])
     = Inr [''CreatedBy'' \<mapsto> JStr ''arn:aws:sts::123456789012:assumed-role/Deploy/session-1'',
            ''CreatedByType'' \<mapsto> JStr ''AssumedRole'',
            ''CreatedByAccountId'' \<mapsto> JStr ''123456789012'',
            ''CreatedAt'' \<mapsto> JStr ''2024-12-25T10:30:00Z'',
            ''CreatedByUser'' \<mapsto> JStr ''session-1'']"
  by (simp add: get_user_identity_def session_issuer_name_def bind_exc_def
        sample_event_def sample_detail_def
        role_null_context_def role_null_arn_def role_empty_issuer_def)

section \<open>From the event to the try block\<close>

lemma process_event_try:
  assumes "enters_try cfg environ now event detail event_name event_source aws_region all_tags"
  shows "process_event cfg environ now event w =
     (case tag_created detail event_name event_source all_tags aws_region w of
        (Inl e, w') \<Rightarrow> (Inr (DispatchError e event_name event_source), w')
      | (Inr tagged, w') \<Rightarrow> (Inr (Success tagged all_tags event_name event_source), w'))"
  using assms unfolding enters_try_def process_event_def
  by (auto simp del: py_get.simps simp add: bind_exc_def Let_def split: sum.splits)

lemma alice_identity:
  "get_user_identity now (sample_event s n (JObj alice) b) = Inr alice_tags"
  unfolding get_user_identity_unfold [OF sample_event_detail sample_detail_identity]
  by (simp add: alice_def alice_tags_def sample_detail_def Let_def)

lemma sample_enters_try:
  assumes "takeWhile (\<lambda>c. c \<noteq> CHR ''.'') s \<notin> set (excluded_services cfg)"
  shows "enters_try cfg environ now (sample_event s n (JObj alice) b)
           (JObj (sample_detail s n (JObj alice) b)) (JStr n) (JStr s) (JStr ''us-east-1'')
           (default_tags cfg ++ alice_tags)"
  using assms unfolding enters_try_def alice_identity
  by (auto simp: sample_event_def sample_detail_def service_of_JStr)

lemma tag_created_instances:
  "tag_created (JObj (sample_detail ''ec2.amazonaws.com'' ''RunInstances'' u (instances_body ids)))
      (JStr ''RunInstances'') (JStr ''ec2.amazonaws.com'') all_tags aws_region w
   = tag_instances (map (\<lambda>i. JObj [(''instanceId'', JStr i)]) ids) all_tags aws_region [] w"
  by (simp add: tag_created_def sample_detail_def instances_body_def bind_exc_def)


section \<open>The bucket applicator\<close>

lemma map_add_twice: "(m ++ t) ++ t = m ++ t"
  by (rule ext) (simp add: map_add_def split: option.splits)

lemma tag_s3_bucket_no_fault:
  assumes "faults w = (\<lambda>h c. None)"
  shows "tag_s3_bucket bucket tags region w =
     (Inr (),
      w\<lparr>calls := calls w @ [GetBucketTagging region bucket,
                              PutBucketTagging region bucket
                                ((case tagstore w (S3, bucket) of None \<Rightarrow> Map.empty | Some ts \<Rightarrow> ts) ++ tags)],
        tagstore := (tagstore w)((S3, bucket) \<mapsto>
                      (case tagstore w (S3, bucket) of None \<Rightarrow> Map.empty | Some ts \<Rightarrow> ts) ++ tags)\<rparr>)"
  using assms
  by (cases "tagstore w (S3, bucket)")
     (simp_all add: tag_s3_bucket_def get_bucket_tagging_def put_bucket_tagging_def invoke_def)

text \<open>
  C4. In a cloud that lets the calls through, \<^verbatim>\<open>tag_s3_bucket\<close> first reads the tags of
  the bucket, then writes back the existing tags overlaid with the new ones, where a bucket
  without tags (the read raises NoSuchTagSet) counts as having none. Afterwards the bucket
  carries the union, with the new value on a shared key; tagging a second time with the
  same tags leaves the tags as the first time did; and a bucket without tags ends with
  exactly the new tags.
\<close>

theorem s3_read_merge_write:
  assumes "faults w = (\<lambda>h c. None)"
  shows "tag_s3_bucket bucket tags region w =
     (Inr (),
      w\<lparr>calls := calls w @ [GetBucketTagging region bucket,
                              PutBucketTagging region bucket
                                ((case tagstore w (S3, bucket) of None \<Rightarrow> Map.empty | Some ts \<Rightarrow> ts) ++ tags)],
        tagstore := (tagstore w)((S3, bucket) \<mapsto>
                      (case tagstore w (S3, bucket) of None \<Rightarrow> Map.empty | Some ts \<Rightarrow> ts) ++ tags)\<rparr>)
   \<and> tagstore (snd (tag_s3_bucket bucket tags region (snd (tag_s3_bucket bucket tags region w))))
       = tagstore (snd (tag_s3_bucket bucket tags region w))
   \<and> (tagstore w (S3, bucket) = None \<longrightarrow>
        tagstore (snd (tag_s3_bucket bucket tags region w)) (S3, bucket) = Some tags)"
proof (intro conjI)
  show once: "tag_s3_bucket bucket tags region w =
     (Inr (),
      w\<lparr>calls := calls w @ [GetBucketTagging region bucket,
                              PutBucketTagging region bucket
                                ((case tagstore w (S3, bucket) of None \<Rightarrow> Map.empty | Some ts \<Rightarrow> ts) ++ tags)],
        tagstore := (tagstore w)((S3, bucket) \<mapsto>
                      (case tagstore w (S3, bucket) of None \<Rightarrow> Map.empty | Some ts \<Rightarrow> ts) ++ tags)\<rparr>)"
    by (rule tag_s3_bucket_no_fault [OF assms])
  have still: "faults (snd (tag_s3_bucket bucket tags region w)) = (\<lambda>h c. None)"
    unfolding once using assms by simp
  show "tagstore (snd (tag_s3_bucket bucket tags region (snd (tag_s3_bucket bucket tags region w))))
       = tagstore (snd (tag_s3_bucket bucket tags region w))"
    unfolding tag_s3_bucket_no_fault [OF still]
    unfolding once
    by (simp add: map_add_twice)
  show "tagstore w (S3, bucket) = None \<longrightarrow>
        tagstore (snd (tag_s3_bucket bucket tags region w)) (S3, bucket) = Some tags"
    unfolding once by simp
qed

text \<open>
  The bucket demo-bucket with the tags Team and AutoTagged receives the default and identity
  tags of \<open>alice\<close>: Team stays, AutoTagged takes the new value; from no tags at all the
  bucket ends with exactly the new tags.
\<close>

theorem s3_read_merge_write_witness:
  "faults cloud_with_bucket = (\<lambda>h c. None)
   \<and> tagstore (snd (tag_s3_bucket (JStr ''demo-bucket'') (default_tags (CONFIG Map.empty) ++ alice_tags)
                      (JStr ''us-east-1'') cloud_with_bucket)) (S3, JStr ''demo-bucket'')
       = Some ([''Team'' \<mapsto> JStr ''data'', ''AutoTagged'' \<mapsto> JStr ''false'']
                 ++ (default_tags (CONFIG Map.empty) ++ alice_tags))
   \<and> calls (snd (tag_s3_bucket (JStr ''demo-bucket'') (default_tags (CONFIG Map.empty) ++ alice_tags)
                      (JStr ''us-east-1'') cloud_with_bucket))
       = [GetBucketTagging (JStr ''us-east-1'') (JStr ''demo-bucket''),
          PutBucketTagging (JStr ''us-east-1'') (JStr ''demo-bucket'')
            ([''Team'' \<mapsto> JStr ''data'', ''AutoTagged'' \<mapsto> JStr ''false'']
                 ++ (default_tags (CONFIG Map.empty) ++ alice_tags))]
   \<and> ([''Team'' \<mapsto> JStr ''data'', ''AutoTagged'' \<mapsto> JStr ''false'']
         ++ (default_tags (CONFIG Map.empty) ++ alice_tags)) ''Team'' = Some (JStr ''data'')
   \<and> ([''Team'' \<mapsto> JStr ''data'', ''AutoTagged'' \<mapsto> JStr ''false'']
         ++ (default_tags (CONFIG Map.empty) ++ alice_tags)) ''AutoTagged'' = Some (JStr ''true'')
   \<and> faults cloud0 = (\<lambda>h c. None)
   \<and> tagstore cloud0 (S3, JStr ''demo-bucket'') = None
   \<and> tagstore (snd (tag_s3_bucket (JStr ''demo-bucket'') (default_tags (CONFIG Map.empty) ++ alice_tags)
                      (JStr ''us-east-1'') cloud0)) (S3, JStr ''demo-bucket'')
       = Some (default_tags (CONFIG Map.empty) ++ alice_tags)"
proof -
  have f1: "faults cloud_with_bucket = (\<lambda>h c. None)"
    by (simp add: cloud_with_bucket_def cloud0_def)
  have f0: "faults cloud0 = (\<lambda>h c. None)"
    by (simp add: cloud0_def)
  have e0: "tagstore cloud0 (S3, JStr ''demo-bucket'') = None"
    by (simp add: cloud0_def)
  have s1: "tagstore (snd (tag_s3_bucket (JStr ''demo-bucket'') (default_tags (CONFIG Map.empty) ++ alice_tags)
                      (JStr ''us-east-1'') cloud_with_bucket)) (S3, JStr ''demo-bucket'')
       = Some ([''Team'' \<mapsto> JStr ''data'', ''AutoTagged'' \<mapsto> JStr ''false'']
                 ++ (default_tags (CONFIG Map.empty) ++ alice_tags))"
    unfolding s3_read_merge_write [OF f1, THEN conjunct1]
    by (simp add: cloud_with_bucket_def)
  have c1: "calls (snd (tag_s3_bucket (JStr ''demo-bucket'') (default_tags (CONFIG Map.empty) ++ alice_tags)
                      (JStr ''us-east-1'') cloud_with_bucket))
       = [GetBucketTagging (JStr ''us-east-1'') (JStr ''demo-bucket''),
          PutBucketTagging (JStr ''us-east-1'') (JStr ''demo-bucket'')
            ([''Team'' \<mapsto> JStr ''data'', ''AutoTagged'' \<mapsto> JStr ''false'']
                 ++ (default_tags (CONFIG Map.empty) ++ alice_tags))]"
    unfolding s3_read_merge_write [OF f1, THEN conjunct1]
    by (simp add: cloud_with_bucket_def cloud0_def)
  have t1: "([''Team'' \<mapsto> JStr ''data'', ''AutoTagged'' \<mapsto> JStr ''false'']
         ++ (default_tags (CONFIG Map.empty) ++ alice_tags)) ''Team'' = Some (JStr ''data'')"
    by (simp add: CONFIG_def alice_tags_def map_add_def)
  have t2: "([''Team'' \<mapsto> JStr ''data'', ''AutoTagged'' \<mapsto> JStr ''false'']
         ++ (default_tags (CONFIG Map.empty) ++ alice_tags)) ''AutoTagged'' = Some (JStr ''true'')"
    by (simp add: CONFIG_def alice_tags_def map_add_def)
  have s0: "tagstore (snd (tag_s3_bucket (JStr ''demo-bucket'') (default_tags (CONFIG Map.empty) ++ alice_tags)
                      (JStr ''us-east-1'') cloud0)) (S3, JStr ''demo-bucket'')
       = Some (default_tags (CONFIG Map.empty) ++ alice_tags)"
    using s3_read_merge_write [OF f0, THEN conjunct2, THEN conjunct2] e0 by blast
  show ?thesis
    by (intro conjI) (rule f1, rule s1, rule c1, rule t1, rule t2, rule f0, rule e0, rule s0)
qed

section \<open>The function applicator\<close>

lemma tag_created_function:
  assumes "bind_exc (py_get detail ''responseElements'' (JObj []))
             (\<lambda>response_elements. py_get response_elements ''functionName'' JNull) = Inr function_name"
  shows "tag_created detail (JStr ''CreateFunction20150331'') (JStr ''lambda.amazonaws.com'') all_tags aws_region w
         = (if py_truthy function_name then
              (case tag_lambda_function function_name all_tags aws_region w of
                 (Inl e, w') \<Rightarrow> (Inl e, w')
               | (Inr u, w') \<Rightarrow> (Inr [(''lambda:function:'', function_name)], w'))
            else (Inr [], w))"
  unfolding tag_created_def tag_if_found_def assms
  by simp

text \<open>
  C9, amended. For a function created under a short name (a non-empty name that does not
  start with \<^verbatim>\<open>arn:\<close>) the applicator first looks the function up and then tags the
  identifier the lookup returned. When the lookup raises, no tagging call is made; when
  the tagging call raises, both calls were made. In both cases the result of the dispatch
  is the same error dictionary built from the exception that was raised, so nothing but
  the exception itself tells the two failures apart.
\<close>

theorem short_name_lookup_then_tagging:
  assumes "enters_try cfg environ now event detail
             (JStr ''CreateFunction20150331'') (JStr ''lambda.amazonaws.com'') aws_region all_tags"
    and "bind_exc (py_get detail ''responseElements'' (JObj []))
           (\<lambda>response_elements. py_get response_elements ''functionName'' JNull) = Inr (JStr name)"
    and "name \<noteq> []"
    and "py_startswith (JStr name) ''arn:'' = Inr False"
  shows "(faults w (calls w) (GetFunction aws_region (JStr name)) = Some e \<longrightarrow>
            process_event cfg environ now event w
              = (Inr (DispatchError e (JStr ''CreateFunction20150331'') (JStr ''lambda.amazonaws.com'')),
                 w\<lparr>calls := calls w @ [GetFunction aws_region (JStr name)]\<rparr>))
       \<and> (faults w (calls w) (GetFunction aws_region (JStr name)) = None
            \<and> faults w (calls w @ [GetFunction aws_region (JStr name)])
                 (LambdaTagResource aws_region (function_arns w (JStr name)) all_tags) = Some e \<longrightarrow>
            process_event cfg environ now event w
              = (Inr (DispatchError e (JStr ''CreateFunction20150331'') (JStr ''lambda.amazonaws.com'')),
                 w\<lparr>calls := calls w @ [GetFunction aws_region (JStr name),
                                        LambdaTagResource aws_region (function_arns w (JStr name)) all_tags]\<rparr>))
       \<and> (faults w (calls w) (GetFunction aws_region (JStr name)) = None
            \<and> faults w (calls w @ [GetFunction aws_region (JStr name)])
                 (LambdaTagResource aws_region (function_arns w (JStr name)) all_tags) = None \<longrightarrow>
            process_event cfg environ now event w
              = (Inr (Success [(''lambda:function:'', JStr name)] all_tags
                        (JStr ''CreateFunction20150331'') (JStr ''lambda.amazonaws.com'')),
                 upsert_tags Lambda (function_arns w (JStr name)) all_tags
                   (w\<lparr>calls := calls w @ [GetFunction aws_region (JStr name),
                                          LambdaTagResource aws_region (function_arns w (JStr name)) all_tags]\<rparr>)))"
  unfolding process_event_try [OF assms(1)] tag_created_function [OF assms(2)]
  using assms(3,4)
  by (simp del: py_startswith.simps
        add: tag_lambda_function_def get_function_def tagging_call_def invoke_def)

text \<open>
  C9 as stated fails: the function my-fn is created; in one cloud the lookup raises, in
  the other the tagging call raises the same exception. The two dispatches made different
  calls and return the same result.
\<close>

theorem resolution_failure_counterexample:
  "fst (process_event (CONFIG Map.empty) Map.empty ''2024-12-25T10:30:01''
          (sample_event ''lambda.amazonaws.com'' ''CreateFunction20150331'' (JObj alice) (function_body ''my-fn''))
          (cloud0\<lparr>faults := lookup_fails (OtherException ''Unable to locate credentials'')\<rparr>))
     = Inr (DispatchError (OtherException ''Unable to locate credentials'')
              (JStr ''CreateFunction20150331'') (JStr ''lambda.amazonaws.com''))
   \<and> fst (process_event (CONFIG Map.empty) Map.empty ''2024-12-25T10:30:01''
          (sample_event ''lambda.amazonaws.com'' ''CreateFunction20150331'' (JObj alice) (function_body ''my-fn''))
          (cloud0\<lparr>faults := lambda_tagging_fails (OtherException ''Unable to locate credentials'')\<rparr>))
     = Inr (DispatchError (OtherException ''Unable to locate credentials'')
              (JStr ''CreateFunction20150331'') (JStr ''lambda.amazonaws.com''))
   \<and> calls (snd (process_event (CONFIG Map.empty) Map.empty ''2024-12-25T10:30:01''
          (sample_event ''lambda.amazonaws.com'' ''CreateFunction20150331'' (JObj alice) (function_body ''my-fn''))
          (cloud0\<lparr>faults := lookup_fails (OtherException ''Unable to locate credentials'')\<rparr>)))
     = [GetFunction (JStr ''us-east-1'') (JStr ''my-fn'')]
   \<and> calls (snd (process_event (CONFIG Map.empty) Map.empty ''2024-12-25T10:30:01''
          (sample_event ''lambda.amazonaws.com'' ''CreateFunction20150331'' (JObj alice) (function_body ''my-fn''))
          (cloud0\<lparr>faults := lambda_tagging_fails (OtherException ''Unable to locate credentials'')\<rparr>)))
     = [GetFunction (JStr ''us-east-1'') (JStr ''my-fn''),
        LambdaTagResource (JStr ''us-east-1'') (JStr ''arn:aws:lambda:us-east-1:123456789012:function:f'')
          (default_tags (CONFIG Map.empty) ++ alice_tags)]"
proof -
  have svc: "takeWhile (\<lambda>c. c \<noteq> CHR ''.'') ''lambda.amazonaws.com'' \<notin> set (excluded_services (CONFIG Map.empty))"
    by (simp add: CONFIG_def)
  have name: "bind_exc (py_get (JObj (sample_detail ''lambda.amazonaws.com'' ''CreateFunction20150331''
                                        (JObj alice) (function_body ''my-fn''))) ''responseElements'' (JObj []))
           (\<lambda>response_elements. py_get response_elements ''functionName'' JNull) = Inr (JStr ''my-fn'')"
    by (simp add: sample_detail_def function_body_def bind_exc_def)
  show ?thesis
    unfolding process_event_try [OF sample_enters_try [OF svc]] tag_created_function [OF name]
    by (simp add: tag_lambda_function_def get_function_def tagging_call_def invoke_def
          cloud0_def lookup_fails_def lambda_tagging_fails_def)
qed

text \<open>
  The function my-fn in three clouds: the lookup is refused, the tagging call is refused,
  and both calls go through.
\<close>

theorem short_name_lookup_then_tagging_witness:
  "py_startswith (JStr ''my-fn'') ''arn:'' = Inr False
   \<and> process_event (CONFIG Map.empty) Map.empty ''2024-12-25T10:30:01''
        (sample_event ''lambda.amazonaws.com'' ''CreateFunction20150331'' (JObj alice) (function_body ''my-fn''))
        (cloud0\<lparr>faults := lookup_fails (ClientError ''ResourceNotFoundException'' ''Function not found'')\<rparr>)
     = (Inr (DispatchError (ClientError ''ResourceNotFoundException'' ''Function not found'')
               (JStr ''CreateFunction20150331'') (JStr ''lambda.amazonaws.com'')),
        cloud0\<lparr>faults := lookup_fails (ClientError ''ResourceNotFoundException'' ''Function not found''),
               calls := [GetFunction (JStr ''us-east-1'') (JStr ''my-fn'')]\<rparr>)
   \<and> process_event (CONFIG Map.empty) Map.empty ''2024-12-25T10:30:01''
        (sample_event ''lambda.amazonaws.com'' ''CreateFunction20150331'' (JObj alice) (function_body ''my-fn''))
        (cloud0\<lparr>faults := lambda_tagging_fails (ClientError ''AccessDeniedException'' ''not authorized'')\<rparr>)
     = (Inr (DispatchError (ClientError ''AccessDeniedException'' ''not authorized'')
               (JStr ''CreateFunction20150331'') (JStr ''lambda.amazonaws.com'')),
        cloud0\<lparr>faults := lambda_tagging_fails (ClientError ''AccessDeniedException'' ''not authorized''),
               calls := [GetFunction (JStr ''us-east-1'') (JStr ''my-fn''),
                         LambdaTagResource (JStr ''us-east-1'')
                           (JStr ''arn:aws:lambda:us-east-1:123456789012:function:f'')
                           (default_tags (CONFIG Map.empty) ++ alice_tags)]\<rparr>)
   \<and> fst (process_event (CONFIG Map.empty) Map.empty ''2024-12-25T10:30:01''
        (sample_event ''lambda.amazonaws.com'' ''CreateFunction20150331'' (JObj alice) (function_body ''my-fn''))
        cloud0)
     = Inr (Success [(''lambda:function:'', JStr ''my-fn'')] (default_tags (CONFIG Map.empty) ++ alice_tags)
              (JStr ''CreateFunction20150331'') (JStr ''lambda.amazonaws.com''))"
proof -
  have svc: "takeWhile (\<lambda>c. c \<noteq> CHR ''.'') ''lambda.amazonaws.com'' \<notin> set (excluded_services (CONFIG Map.empty))"
    by (simp add: CONFIG_def)
  have name: "bind_exc (py_get (JObj (sample_detail ''lambda.amazonaws.com'' ''CreateFunction20150331''
                                        (JObj alice) (function_body ''my-fn''))) ''responseElements'' (JObj []))
           (\<lambda>response_elements. py_get response_elements ''functionName'' JNull) = Inr (JStr ''my-fn'')"
    by (simp add: sample_detail_def function_body_def bind_exc_def)
  have ne: "''my-fn'' \<noteq> []"
    by simp
  have short: "py_startswith (JStr ''my-fn'') ''arn:'' = Inr False"
    by simp
  note inst = short_name_lookup_then_tagging [OF sample_enters_try [OF svc] name ne short]
  have c1: "process_event (CONFIG Map.empty) Map.empty ''2024-12-25T10:30:01''
        (sample_event ''lambda.amazonaws.com'' ''CreateFunction20150331'' (JObj alice) (function_body ''my-fn''))
        (cloud0\<lparr>faults := lookup_fails (ClientError ''ResourceNotFoundException'' ''Function not found'')\<rparr>)
     = (Inr (DispatchError (ClientError ''ResourceNotFoundException'' ''Function not found'')
               (JStr ''CreateFunction20150331'') (JStr ''lambda.amazonaws.com'')),
        cloud0\<lparr>faults := lookup_fails (ClientError ''ResourceNotFoundException'' ''Function not found''),
               calls := [GetFunction (JStr ''us-east-1'') (JStr ''my-fn'')]\<rparr>)"
    using inst [where w = "cloud0\<lparr>faults := lookup_fails (ClientError ''ResourceNotFoundException'' ''Function not found'')\<rparr>"
                 and e = "ClientError ''ResourceNotFoundException'' ''Function not found''", THEN conjunct1]
    by (simp add: cloud0_def lookup_fails_def)
  have c2: "process_event (CONFIG Map.empty) Map.empty ''2024-12-25T10:30:01''
        (sample_event ''lambda.amazonaws.com'' ''CreateFunction20150331'' (JObj alice) (function_body ''my-fn''))
        (cloud0\<lparr>faults := lambda_tagging_fails (ClientError ''AccessDeniedException'' ''not authorized'')\<rparr>)
     = (Inr (DispatchError (ClientError ''AccessDeniedException'' ''not authorized'')
               (JStr ''CreateFunction20150331'') (JStr ''lambda.amazonaws.com'')),
        cloud0\<lparr>faults := lambda_tagging_fails (ClientError ''AccessDeniedException'' ''not authorized''),
               calls := [GetFunction (JStr ''us-east-1'') (JStr ''my-fn''),
                         LambdaTagResource (JStr ''us-east-1'')
                           (JStr ''arn:aws:lambda:us-east-1:123456789012:function:f'')
                           (default_tags (CONFIG Map.empty) ++ alice_tags)]\<rparr>)"
    using inst [where w = "cloud0\<lparr>faults := lambda_tagging_fails (ClientError ''AccessDeniedException'' ''not authorized'')\<rparr>"
                 and e = "ClientError ''AccessDeniedException'' ''not authorized''",
               THEN conjunct2, THEN conjunct1]
    by (simp add: cloud0_def lambda_tagging_fails_def)
  have c3: "fst (process_event (CONFIG Map.empty) Map.empty ''2024-12-25T10:30:01''
        (sample_event ''lambda.amazonaws.com'' ''CreateFunction20150331'' (JObj alice) (function_body ''my-fn''))
        cloud0)
     = Inr (Success [(''lambda:function:'', JStr ''my-fn'')] (default_tags (CONFIG Map.empty) ++ alice_tags)
              (JStr ''CreateFunction20150331'') (JStr ''lambda.amazonaws.com''))"
    using inst [where w = cloud0, THEN conjunct2, THEN conjunct2]
    by (simp add: cloud0_def)
  show ?thesis
    by (intro conjI) (rule short, rule c1, rule c2, rule c3)
qed

section \<open>The instance loop\<close>

lemma tag_ec2_resource_cases:
  "tag_ec2_resource rid rtype tags region w =
     (case faults w (calls w) (CreateTags region rid tags) of
        Some e \<Rightarrow> (Inl e, w\<lparr>calls := calls w @ [CreateTags region rid tags]\<rparr>)
      | None \<Rightarrow> (Inr (), upsert_tags EC2 rid tags (w\<lparr>calls := calls w @ [CreateTags region rid tags]\<rparr>)))"
  by (simp add: tag_ec2_resource_def tagging_call_def invoke_def split: option.splits)

lemma tag_instances_append:
  "tag_instances (xs @ ys) all_tags aws_region tagged w =
     (case tag_instances xs all_tags aws_region tagged w of
        (Inl e, w') \<Rightarrow> (Inl e, w')
      | (Inr tagged', w') \<Rightarrow> tag_instances ys all_tags aws_region tagged' w')"
  by (induction xs arbitrary: tagged w) (auto split: sum.splits prod.splits)

text \<open>The items of a launch are only reached through a truthy \<^verbatim>\<open>responseElements\<close>.\<close>

lemma tag_created_run_instances:
  assumes "bind_exc (py_get detail ''responseElements'' (JObj [])) (\<lambda>response_elements.
           bind_exc (py_get response_elements ''instancesSet'' (JObj [])) (\<lambda>instances_set.
           bind_exc (py_get instances_set ''items'' (JArr [])) py_iter)) = Inr instances"
  shows "tag_created detail (JStr ''RunInstances'') (JStr ''ec2.amazonaws.com'') all_tags aws_region w
         = tag_instances instances all_tags aws_region [] w"
proof -
  from assms obtain response_elements where
    re: "py_get detail ''responseElements'' (JObj []) = Inr response_elements"
    and rest: "bind_exc (py_get response_elements ''instancesSet'' (JObj [])) (\<lambda>instances_set.
           bind_exc (py_get instances_set ''items'' (JArr [])) py_iter) = Inr instances"
    by (auto simp: bind_exc_def split: sum.splits)
  show ?thesis
  proof (cases "py_truthy response_elements")
    case True
    then show ?thesis
      using re rest by (simp add: tag_created_def)
  next
    case False
    with rest have "response_elements = JObj []"
      by (cases response_elements) (simp_all add: bind_exc_def)
    with rest have "instances = []"
      by (simp add: bind_exc_def)
    with False re show ?thesis
      by (simp add: tag_created_def)
  qed
qed

lemma carries_after_tagging:
  "carries tags (upsert_tags EC2 rid tags w) (prefix, rid)"
  by (auto simp: carries_def upsert_tags_def map_le_def map_add_def dom_def split: option.splits)

lemma carries_kept:
  assumes "carries tags w l"
  shows "carries tags (upsert_tags EC2 rid tags (w\<lparr>calls := cs\<rparr>)) l"
  using assms
  by (auto simp: carries_def upsert_tags_def map_le_def map_add_def dom_def split: option.splits)

lemma tag_instances_carries:
  assumes "tag_instances xs all_tags aws_region tagged w = (Inr tagged', w')"
    and "list_all (carries all_tags w) tagged"
  shows "list_all (carries all_tags w') tagged'"
  using assms
proof (induction xs arbitrary: tagged w)
  case Nil
  then show ?case by simp
next
  case (Cons item rest)
  from Cons.prems(1) obtain instance_id where
    iid: "py_get item ''instanceId'' JNull = Inr instance_id"
    by (auto split: sum.splits)
  show ?case
  proof (cases "py_truthy instance_id")
    case False
    with Cons iid show ?thesis by simp
  next
    case True
    with Cons.prems(1) iid have ok: "faults w (calls w) (CreateTags aws_region instance_id all_tags) = None"
      by (auto simp: tag_ec2_resource_cases split: option.splits)
    let ?w1 = "upsert_tags EC2 instance_id all_tags
                 (w\<lparr>calls := calls w @ [CreateTags aws_region instance_id all_tags]\<rparr>)"
    from Cons.prems(1) iid True ok have run:
      "tag_instances rest all_tags aws_region (tagged @ [(''ec2:instance:'', instance_id)]) ?w1 = (Inr tagged', w')"
      by (simp add: tag_ec2_resource_cases)
    have "list_all (carries all_tags ?w1) (tagged @ [(''ec2:instance:'', instance_id)])"
      using Cons.prems(2) carries_kept carries_after_tagging
      by (auto simp: list_all_iff)
    from Cons.IH [OF run this] show ?thesis .
  qed
qed

text \<open>What a launch does when the tagging call of one of its instances raises.\<close>

lemma run_instances_failure:
  assumes "enters_try cfg environ now event detail
             (JStr ''RunInstances'') (JStr ''ec2.amazonaws.com'') aws_region all_tags"
    and "bind_exc (py_get detail ''responseElements'' (JObj [])) (\<lambda>response_elements.
         bind_exc (py_get response_elements ''instancesSet'' (JObj [])) (\<lambda>instances_set.
         bind_exc (py_get instances_set ''items'' (JArr [])) py_iter))
           = Inr (before @ instance # after)"
    and "tag_instances before all_tags aws_region [] w = (Inr tagged, w1)"
    and "py_get instance ''instanceId'' JNull = Inr instance_id"
    and "py_truthy instance_id"
    and "faults w1 (calls w1) (CreateTags aws_region instance_id all_tags) = Some e"
  shows "process_event cfg environ now event w
           = (Inr (DispatchError e (JStr ''RunInstances'') (JStr ''ec2.amazonaws.com'')),
              w1\<lparr>calls := calls w1 @ [CreateTags aws_region instance_id all_tags]\<rparr>)"
  unfolding process_event_try [OF assms(1)] tag_created_run_instances [OF assms(2)]
    tag_instances_append assms(3)
  using assms(4,5,6)
  by (simp add: tag_ec2_resource_cases)

lemma sample_items:
  "bind_exc (py_get (JObj (sample_detail s n u (instances_body ids))) ''responseElements'' (JObj []))
     (\<lambda>response_elements.
      bind_exc (py_get response_elements ''instancesSet'' (JObj [])) (\<lambda>instances_set.
      bind_exc (py_get instances_set ''items'' (JArr [])) py_iter))
   = Inr (map (\<lambda>i. JObj [(''instanceId'', JStr i)]) ids)"
  by (simp add: sample_detail_def instances_body_def bind_exc_def)

lemma ec2_not_excluded:
  "takeWhile (\<lambda>c. c \<noteq> CHR ''.'') ''ec2.amazonaws.com'' \<notin> set (excluded_services (CONFIG Map.empty))"
  by (simp add: CONFIG_def)

section \<open>A tagging call that raises in a launch of several instances\<close>

text \<open>
  C1, amended. In a launch of several instances, when the instances before one were tagged
  and the tagging call for that one raises, the dispatch ends there: the call that raised
  is the last call made, so no instance after it is attempted, no outcome per resource is
  collected, and the status of the result is error.
\<close>

theorem failure_ends_dispatch:
  assumes "enters_try cfg environ now event detail
             (JStr ''RunInstances'') (JStr ''ec2.amazonaws.com'') aws_region all_tags"
    and "bind_exc (py_get detail ''responseElements'' (JObj [])) (\<lambda>response_elements.
         bind_exc (py_get response_elements ''instancesSet'' (JObj [])) (\<lambda>instances_set.
         bind_exc (py_get instances_set ''items'' (JArr [])) py_iter))
           = Inr (before @ instance # after)"
    and "tag_instances before all_tags aws_region [] w = (Inr tagged, w1)"
    and "py_get instance ''instanceId'' JNull = Inr instance_id"
    and "py_truthy instance_id"
    and "faults w1 (calls w1) (CreateTags aws_region instance_id all_tags) = Some e"
  shows "calls (snd (process_event cfg environ now event w))
           = calls w1 @ [CreateTags aws_region instance_id all_tags]
       \<and> (\<exists>r. fst (process_event cfg environ now event w) = Inr r \<and> status r = ''error'')"
  unfolding run_instances_failure [OF assms]
  by simp

text \<open>
  Three instances are launched and the cloud refuses to tag the second: the first is
  tagged, the third is never attempted, and the status is error.
\<close>

theorem failure_ends_dispatch_witness:
  "tag_instances [JObj [(''instanceId'', JStr ''i-1'')]] (default_tags (CONFIG Map.empty) ++ alice_tags)
      (JStr ''us-east-1'') [] (refusing ''i-2'')
     = (Inr [(''ec2:instance:'', JStr ''i-1'')],
        upsert_tags EC2 (JStr ''i-1'') (default_tags (CONFIG Map.empty) ++ alice_tags)
          ((refusing ''i-2'')\<lparr>calls := [CreateTags (JStr ''us-east-1'') (JStr ''i-1'')
                                             (default_tags (CONFIG Map.empty) ++ alice_tags)]\<rparr>))
   \<and> calls (snd (process_event (CONFIG Map.empty) Map.empty ''2024-12-25T10:30:01''
        (sample_event ''ec2.amazonaws.com'' ''RunInstances'' (JObj alice) (instances_body [''i-1'', ''i-2'', ''i-3'']))
        (refusing ''i-2'')))
     = [CreateTags (JStr ''us-east-1'') (JStr ''i-1'') (default_tags (CONFIG Map.empty) ++ alice_tags),
        CreateTags (JStr ''us-east-1'') (JStr ''i-2'') (default_tags (CONFIG Map.empty) ++ alice_tags)]
   \<and> (\<exists>r. fst (process_event (CONFIG Map.empty) Map.empty ''2024-12-25T10:30:01''
        (sample_event ''ec2.amazonaws.com'' ''RunInstances'' (JObj alice) (instances_body [''i-1'', ''i-2'', ''i-3'']))
        (refusing ''i-2'')) = Inr r \<and> status r = ''error'')"
proof -
  have items: "bind_exc (py_get (JObj (sample_detail ''ec2.amazonaws.com'' ''RunInstances'' (JObj alice)
                                         (instances_body [''i-1'', ''i-2'', ''i-3''])))
                           ''responseElements'' (JObj []))
     (\<lambda>response_elements.
      bind_exc (py_get response_elements ''instancesSet'' (JObj [])) (\<lambda>instances_set.
      bind_exc (py_get instances_set ''items'' (JArr [])) py_iter))
   = Inr ([JObj [(''instanceId'', JStr ''i-1'')]] @ JObj [(''instanceId'', JStr ''i-2'')]
            # [JObj [(''instanceId'', JStr ''i-3'')]])"
    unfolding sample_items by simp
  have before: "tag_instances [JObj [(''instanceId'', JStr ''i-1'')]] (default_tags (CONFIG Map.empty) ++ alice_tags)
      (JStr ''us-east-1'') [] (refusing ''i-2'')
     = (Inr [(''ec2:instance:'', JStr ''i-1'')],
        upsert_tags EC2 (JStr ''i-1'') (default_tags (CONFIG Map.empty) ++ alice_tags)
          ((refusing ''i-2'')\<lparr>calls := [CreateTags (JStr ''us-east-1'') (JStr ''i-1'')
                                             (default_tags (CONFIG Map.empty) ++ alice_tags)]\<rparr>))"
    by (simp add: tag_ec2_resource_cases refusing_def rejects_def cloud0_def)
  have iid: "py_get (JObj [(''instanceId'', JStr ''i-2'')]) ''instanceId'' JNull = Inr (JStr ''i-2'')"
    by simp
  have truthy: "py_truthy (JStr ''i-2'')"
    by simp
  have fails: "faults (upsert_tags EC2 (JStr ''i-1'') (default_tags (CONFIG Map.empty) ++ alice_tags)
          ((refusing ''i-2'')\<lparr>calls := [CreateTags (JStr ''us-east-1'') (JStr ''i-1'')
                                             (default_tags (CONFIG Map.empty) ++ alice_tags)]\<rparr>))
        (calls (upsert_tags EC2 (JStr ''i-1'') (default_tags (CONFIG Map.empty) ++ alice_tags)
          ((refusing ''i-2'')\<lparr>calls := [CreateTags (JStr ''us-east-1'') (JStr ''i-1'')
                                             (default_tags (CONFIG Map.empty) ++ alice_tags)]\<rparr>)))
        (CreateTags (JStr ''us-east-1'') (JStr ''i-2'') (default_tags (CONFIG Map.empty) ++ alice_tags))
      = Some (ClientError ''InvalidInstanceID.NotFound'' ''The instance ID does not exist'')"
    by (simp add: upsert_tags_def refusing_def rejects_def cloud0_def)
  note c = failure_ends_dispatch [OF sample_enters_try [OF ec2_not_excluded] items before iid truthy fails]
  have log: "calls (snd (process_event (CONFIG Map.empty) Map.empty ''2024-12-25T10:30:01''
        (sample_event ''ec2.amazonaws.com'' ''RunInstances'' (JObj alice) (instances_body [''i-1'', ''i-2'', ''i-3'']))
        (refusing ''i-2'')))
     = [CreateTags (JStr ''us-east-1'') (JStr ''i-1'') (default_tags (CONFIG Map.empty) ++ alice_tags),
        CreateTags (JStr ''us-east-1'') (JStr ''i-2'') (default_tags (CONFIG Map.empty) ++ alice_tags)]"
    using c [THEN conjunct1] by (simp add: upsert_tags_def)
  show ?thesis
    by (intro conjI) (rule before, rule log, rule c [THEN conjunct2])
qed

text \<open>
  C1 as stated fails on the same launch: the result is the error dictionary and not a
  success with one outcome per resource, and the log of calls has no call for i-3.
\<close>

theorem sibling_not_attempted_counterexample:
  "fst (process_event (CONFIG Map.empty) Map.empty ''2024-12-25T10:30:01''
        (sample_event ''ec2.amazonaws.com'' ''RunInstances'' (JObj alice) (instances_body [''i-1'', ''i-2'', ''i-3'']))
        (refusing ''i-2''))
     = Inr (DispatchError (ClientError ''InvalidInstanceID.NotFound'' ''The instance ID does not exist'')
              (JStr ''RunInstances'') (JStr ''ec2.amazonaws.com''))
   \<and> calls (snd (process_event (CONFIG Map.empty) Map.empty ''2024-12-25T10:30:01''
        (sample_event ''ec2.amazonaws.com'' ''RunInstances'' (JObj alice) (instances_body [''i-1'', ''i-2'', ''i-3'']))
        (refusing ''i-2'')))
     = [CreateTags (JStr ''us-east-1'') (JStr ''i-1'') (default_tags (CONFIG Map.empty) ++ alice_tags),
        CreateTags (JStr ''us-east-1'') (JStr ''i-2'') (default_tags (CONFIG Map.empty) ++ alice_tags)]
   \<and> tagstore (snd (process_event (CONFIG Map.empty) Map.empty ''2024-12-25T10:30:01''
        (sample_event ''ec2.amazonaws.com'' ''RunInstances'' (JObj alice) (instances_body [''i-1'', ''i-2'', ''i-3'']))
        (refusing ''i-2''))) (EC2, JStr ''i-3'') = None"
  unfolding process_event_try [OF sample_enters_try [OF ec2_not_excluded]] tag_created_instances
  by (simp add: tag_ec2_resource_cases upsert_tags_def refusing_def rejects_def cloud0_def)

text \<open>
  C10. When the tagging call of an instance raises after the instances before it were
  tagged, \<^verbatim>\<open>process_event\<close> returns the error dictionary, which holds the exception, the
  event name and the event source and nothing else. The tags in the cloud are those the
  earlier calls left: every instance tagged so far still carries all the tags, and the
  result does not name any of them.
\<close>

theorem partial_tagging_unreported:
  assumes "enters_try cfg environ now event detail
             (JStr ''RunInstances'') (JStr ''ec2.amazonaws.com'') aws_region all_tags"
    and "bind_exc (py_get detail ''responseElements'' (JObj [])) (\<lambda>response_elements.
         bind_exc (py_get response_elements ''instancesSet'' (JObj [])) (\<lambda>instances_set.
         bind_exc (py_get instances_set ''items'' (JArr [])) py_iter))
           = Inr (before @ instance # after)"
    and "tag_instances before all_tags aws_region [] w = (Inr tagged, w1)"
    and "py_get instance ''instanceId'' JNull = Inr instance_id"
    and "py_truthy instance_id"
    and "faults w1 (calls w1) (CreateTags aws_region instance_id all_tags) = Some e"
  shows "fst (process_event cfg environ now event w)
           = Inr (DispatchError e (JStr ''RunInstances'') (JStr ''ec2.amazonaws.com''))
       \<and> tagstore (snd (process_event cfg environ now event w)) = tagstore w1
       \<and> list_all (carries all_tags (snd (process_event cfg environ now event w))) tagged"
proof -
  have "list_all (carries all_tags w1) tagged"
    by (rule tag_instances_carries [OF assms(3)]) simp
  then show ?thesis
    unfolding run_instances_failure [OF assms]
    by (simp add: carries_def list_all_iff)
qed

text \<open>
  Three instances are launched and the cloud refuses to tag the third: the first two keep
  their tags, and the error dictionary does not mention them.
\<close>

theorem partial_tagging_unreported_witness:
  "tag_instances [JObj [(''instanceId'', JStr ''i-1'')], JObj [(''instanceId'', JStr ''i-2'')]]
      (default_tags (CONFIG Map.empty) ++ alice_tags) (JStr ''us-east-1'') [] (refusing ''i-3'')
     = (Inr [(''ec2:instance:'', JStr ''i-1''), (''ec2:instance:'', JStr ''i-2'')], after_two)
   \<and> faults after_two (calls after_two)
        (CreateTags (JStr ''us-east-1'') (JStr ''i-3'') (default_tags (CONFIG Map.empty) ++ alice_tags))
      = Some (ClientError ''InvalidInstanceID.NotFound'' ''The instance ID does not exist'')
   \<and> fst (process_event (CONFIG Map.empty) Map.empty ''2024-12-25T10:30:01''
        (sample_event ''ec2.amazonaws.com'' ''RunInstances'' (JObj alice) (instances_body [''i-1'', ''i-2'', ''i-3'']))
        (refusing ''i-3''))
      = Inr (DispatchError (ClientError ''InvalidInstanceID.NotFound'' ''The instance ID does not exist'')
               (JStr ''RunInstances'') (JStr ''ec2.amazonaws.com''))
   \<and> tagstore (snd (process_event (CONFIG Map.empty) Map.empty ''2024-12-25T10:30:01''
        (sample_event ''ec2.amazonaws.com'' ''RunInstances'' (JObj alice) (instances_body [''i-1'', ''i-2'', ''i-3'']))
        (refusing ''i-3'')))
      = tagstore after_two
   \<and> tagstore after_two (EC2, JStr ''i-1'') = Some (default_tags (CONFIG Map.empty) ++ alice_tags)
   \<and> tagstore after_two (EC2, JStr ''i-2'') = Some (default_tags (CONFIG Map.empty) ++ alice_tags)
   \<and> list_all (carries (default_tags (CONFIG Map.empty) ++ alice_tags)
        (snd (process_event (CONFIG Map.empty) Map.empty ''2024-12-25T10:30:01''
        (sample_event ''ec2.amazonaws.com'' ''RunInstances'' (JObj alice) (instances_body [''i-1'', ''i-2'', ''i-3'']))
        (refusing ''i-3''))))
        [(''ec2:instance:'', JStr ''i-1''), (''ec2:instance:'', JStr ''i-2'')]"
proof -
  have items: "bind_exc (py_get (JObj (sample_detail ''ec2.amazonaws.com'' ''RunInstances'' (JObj alice)
                                         (instances_body [''i-1'', ''i-2'', ''i-3''])))
                           ''responseElements'' (JObj []))
     (\<lambda>response_elements.
      bind_exc (py_get response_elements ''instancesSet'' (JObj [])) (\<lambda>instances_set.
      bind_exc (py_get instances_set ''items'' (JArr [])) py_iter))
   = Inr ([JObj [(''instanceId'', JStr ''i-1'')], JObj [(''instanceId'', JStr ''i-2'')]]
            @ JObj [(''instanceId'', JStr ''i-3'')] # [])"
    unfolding sample_items by simp
  have before: "tag_instances [JObj [(''instanceId'', JStr ''i-1'')], JObj [(''instanceId'', JStr ''i-2'')]]
      (default_tags (CONFIG Map.empty) ++ alice_tags) (JStr ''us-east-1'') [] (refusing ''i-3'')
     = (Inr [(''ec2:instance:'', JStr ''i-1''), (''ec2:instance:'', JStr ''i-2'')], after_two)"
    by (simp add: tag_ec2_resource_cases upsert_tags_def after_two_def refusing_def rejects_def cloud0_def)
  have iid: "py_get (JObj [(''instanceId'', JStr ''i-3'')]) ''instanceId'' JNull = Inr (JStr ''i-3'')"
    by simp
  have truthy: "py_truthy (JStr ''i-3'')"
    by simp
  have fails: "faults after_two (calls after_two)
        (CreateTags (JStr ''us-east-1'') (JStr ''i-3'') (default_tags (CONFIG Map.empty) ++ alice_tags))
      = Some (ClientError ''InvalidInstanceID.NotFound'' ''The instance ID does not exist'')"
    by (simp add: after_two_def refusing_def rejects_def cloud0_def)
  note c = partial_tagging_unreported
             [OF sample_enters_try [OF ec2_not_excluded] items before iid truthy fails]
  have t1: "tagstore after_two (EC2, JStr ''i-1'') = Some (default_tags (CONFIG Map.empty) ++ alice_tags)"
    by (simp add: after_two_def)
  have t2: "tagstore after_two (EC2, JStr ''i-2'') = Some (default_tags (CONFIG Map.empty) ++ alice_tags)"
    by (simp add: after_two_def)
  show ?thesis
    by (intro conjI)
       (rule before, rule fails, rule c [THEN conjunct1], rule c [THEN conjunct2, THEN conjunct1],
        rule t1, rule t2, rule c [THEN conjunct2, THEN conjunct2])
qed

section \<open>Events without a route or without a resource\<close>

lemma tag_created_unrouted:
  assumes "\<not> routed event_source event_name"
  shows "tag_created detail event_name event_source all_tags aws_region w = (Inr [], w)"
  using assms by (auto simp: routed_def tag_created_def)

lemma tag_created_no_body:
  assumes "py_get detail ''responseElements'' (JObj []) = Inr (JObj [])"
    and "py_get detail ''requestParameters'' (JObj []) = Inr (JObj [])"
  shows "tag_created detail event_name event_source all_tags aws_region w = (Inr [], w)"
  unfolding tag_created_def tag_if_found_def assms
  by (simp add: bind_exc_def)

text \<open>Every applicator that returns has made a call.\<close>

lemma tagging_call_calls:
  assumes "tagging_call c svc rid tags w = (r, w')"
  shows "calls w' = calls w @ [c]"
  using assms
  by (auto simp: tagging_call_def invoke_def upsert_tags_def split: option.splits)

lemma tag_ec2_resource_grows:
  assumes "tag_ec2_resource rid rtype tags region w = (Inr r, w')"
  shows "length (calls w) < length (calls w')"
  using tagging_call_calls [OF assms [unfolded tag_ec2_resource_def]] by simp

lemma tag_rds_resource_grows:
  assumes "tag_rds_resource rid tags region w = (Inr r, w')"
  shows "length (calls w) < length (calls w')"
  using tagging_call_calls [OF assms [unfolded tag_rds_resource_def]] by simp

lemma put_bucket_tagging_calls:
  assumes "put_bucket_tagging region bucket ts w = (r, w')"
  shows "length (calls w') = Suc (length (calls w))"
  using assms by (auto simp: put_bucket_tagging_def invoke_def split: option.splits)

lemma get_bucket_tagging_calls:
  assumes "get_bucket_tagging region bucket w = (r, w')"
  shows "length (calls w') = Suc (length (calls w))"
  using assms by (auto simp: get_bucket_tagging_def invoke_def split: option.splits)

lemma tag_s3_bucket_grows:
  assumes "tag_s3_bucket bucket tags region w = (Inr r, w')"
  shows "length (calls w) < length (calls w')"
proof -
  obtain g w1 where g: "get_bucket_tagging region bucket w = (g, w1)"
    by (cases "get_bucket_tagging region bucket w")
  from assms g obtain ts where "put_bucket_tagging region bucket ts w1 = (Inr r, w')"
    by (auto simp: tag_s3_bucket_def split: sum.splits py_exception.splits if_splits)
  from put_bucket_tagging_calls [OF this] get_bucket_tagging_calls [OF g]
  show ?thesis by simp
qed

lemma tag_lambda_function_grows:
  assumes "tag_lambda_function name tags region w = (Inr r, w')"
  shows "length (calls w) < length (calls w')"
proof (cases "py_startswith name ''arn:''")
  case (Inl e)
  with assms show ?thesis by (simp add: tag_lambda_function_def)
next
  case (Inr b)
  show ?thesis
  proof (cases b)
    case True
    with Inr assms have "tagging_call (LambdaTagResource region name tags) Lambda name tags w = (Inr r, w')"
      by (simp add: tag_lambda_function_def)
    from tagging_call_calls [OF this] show ?thesis by simp
  next
    case False
    with Inr assms obtain arn w1 where
      look: "get_function region name w = (Inr arn, w1)"
      and tag: "tagging_call (LambdaTagResource region arn tags) Lambda arn tags w1 = (Inr r, w')"
      by (auto simp: tag_lambda_function_def split: prod.splits sum.splits)
    from look have "length (calls w1) = Suc (length (calls w))"
      by (auto simp: get_function_def invoke_def split: option.splits)
    with tagging_call_calls [OF tag] show ?thesis by simp
  qed
qed

lemma tag_dynamodb_table_grows:
  assumes "tag_dynamodb_table name tags region w = (Inr r, w')"
  shows "length (calls w) < length (calls w')"
proof -
  from assms obtain arn w1 where
    look: "describe_table region name w = (Inr arn, w1)"
    and tag: "tagging_call (DynamoDBTagResource region arn tags) DynamoDB arn tags w1 = (Inr r, w')"
    by (auto simp: tag_dynamodb_table_def split: prod.splits sum.splits)
  from look have "length (calls w1) = Suc (length (calls w))"
    by (auto simp: describe_table_def invoke_def split: option.splits)
  with tagging_call_calls [OF tag] show ?thesis by simp
qed

lemma tag_if_found_quiet:
  assumes "\<And>rid w r w'. applicator rid w = (Inr r, w') \<Longrightarrow> length (calls w) < length (calls w')"
    and "tag_if_found found applicator prefix w = (Inr tagged, w')"
    and "calls w' = calls w"
  shows "tagged = []"
proof (rule ccontr)
  assume "tagged \<noteq> []"
  with assms(2) obtain rid r where "applicator rid w = (Inr r, w')"
    by (auto simp: tag_if_found_def split: sum.splits if_splits prod.splits)
  from assms(1) [OF this] assms(3) show False by simp
qed

lemma tag_instances_count:
  assumes "tag_instances xs all_tags aws_region tagged w = (Inr tagged', w')"
  shows "length tagged' + length (calls w) = length (calls w') + length tagged"
  using assms
proof (induction xs arbitrary: tagged w)
  case Nil
  then show ?case by simp
next
  case (Cons item rest)
  from Cons.prems obtain instance_id where
    iid: "py_get item ''instanceId'' JNull = Inr instance_id"
    by (auto split: sum.splits)
  show ?case
  proof (cases "py_truthy instance_id")
    case False
    with Cons iid show ?thesis by simp
  next
    case True
    with Cons.prems iid obtain w1 where
      one: "tag_ec2_resource instance_id ''instance'' all_tags aws_region w = (Inr (), w1)"
      and run: "tag_instances rest all_tags aws_region (tagged @ [(''ec2:instance:'', instance_id)]) w1
                  = (Inr tagged', w')"
      by (auto split: prod.splits sum.splits)
    from tagging_call_calls [OF one [unfolded tag_ec2_resource_def]]
    have "length (calls w1) = Suc (length (calls w))" by simp
    with Cons.IH [OF run] show ?thesis by simp
  qed
qed

lemma tag_created_quiet:
  assumes "tag_created detail event_name event_source all_tags aws_region w = (Inr tagged, w')"
    and "calls w' = calls w"
  shows "tagged = []"
proof -
  note quiet = tag_if_found_quiet [OF _ _ assms(2)]
  consider
      (inst) instances where
        "tag_instances instances all_tags aws_region [] w = (Inr tagged, w')"
    | (none) "tagged = []"
    | (ec2) found rtype prefix where
        "tag_if_found found (\<lambda>rid. tag_ec2_resource rid rtype all_tags aws_region) prefix w = (Inr tagged, w')"
    | (s3) found prefix where
        "tag_if_found found (\<lambda>rid. tag_s3_bucket rid all_tags aws_region) prefix w = (Inr tagged, w')"
    | (rds) found prefix where
        "tag_if_found found (\<lambda>rid. tag_rds_resource rid all_tags aws_region) prefix w = (Inr tagged, w')"
    | (lam) found prefix where
        "tag_if_found found (\<lambda>rid. tag_lambda_function rid all_tags aws_region) prefix w = (Inr tagged, w')"
    | (ddb) found prefix where
        "tag_if_found found (\<lambda>rid. tag_dynamodb_table rid all_tags aws_region) prefix w = (Inr tagged, w')"
    using assms(1) unfolding tag_created_def
    by (auto split: if_splits sum.splits)
  then show ?thesis
  proof cases
    case inst
    from tag_instances_count [OF this] assms(2) show ?thesis by simp
  next
    case none
    then show ?thesis .
  next
    case ec2
    show ?thesis by (rule quiet [OF tag_ec2_resource_grows ec2])
  next
    case s3
    show ?thesis by (rule quiet [OF tag_s3_bucket_grows s3])
  next
    case rds
    show ?thesis by (rule quiet [OF tag_rds_resource_grows rds])
  next
    case lam
    show ?thesis by (rule quiet [OF tag_lambda_function_grows lam])
  next
    case ddb
    show ?thesis by (rule quiet [OF tag_dynamodb_table_grows ddb])
  qed
qed

text \<open>
  C2, amended. Let an event reach the \<^verbatim>\<open>try\<close> block (its service is not excluded and
  identity extraction returns). If no branch tests for its pair of event source and event
  name, the result is success with an empty \<^verbatim>\<open>tagged_resources\<close> and the cloud is left
  as it was: no applicator is invoked. The same holds for a pair with a branch when the
  event has neither response elements nor request parameters. In general, when no call
  was made, the result is success with an empty \<^verbatim>\<open>tagged_resources\<close> or, when reading
  the event raised, error. The result is never the skipped one: there is no reason
  no-match and no reason no-resources.
\<close>

theorem unrouted_or_empty_is_success:
  assumes "enters_try cfg environ now event detail event_name event_source aws_region all_tags"
  shows "(\<not> routed event_source event_name \<longrightarrow>
            process_event cfg environ now event w
              = (Inr (Success [] all_tags event_name event_source), w))
       \<and> (routed event_source event_name
            \<and> py_get detail ''responseElements'' (JObj []) = Inr (JObj [])
            \<and> py_get detail ''requestParameters'' (JObj []) = Inr (JObj []) \<longrightarrow>
            process_event cfg environ now event w
              = (Inr (Success [] all_tags event_name event_source), w))
       \<and> (calls (snd (process_event cfg environ now event w)) = calls w \<longrightarrow>
            (\<exists>r. fst (process_event cfg environ now event w) = Inr r
               \<and> (r = Success [] all_tags event_name event_source \<or> status r = ''error'')))
       \<and> (\<forall>reason. fst (process_event cfg environ now event w) \<noteq> Inr (Skipped reason))"
proof (intro conjI impI allI)
  assume "\<not> routed event_source event_name"
  then show "process_event cfg environ now event w
              = (Inr (Success [] all_tags event_name event_source), w)"
    unfolding process_event_try [OF assms] by (simp add: tag_created_unrouted)
next
  assume "routed event_source event_name
            \<and> py_get detail ''responseElements'' (JObj []) = Inr (JObj [])
            \<and> py_get detail ''requestParameters'' (JObj []) = Inr (JObj [])"
  then show "process_event cfg environ now event w
              = (Inr (Success [] all_tags event_name event_source), w)"
    unfolding process_event_try [OF assms] by (simp add: tag_created_no_body)
next
  assume quiet: "calls (snd (process_event cfg environ now event w)) = calls w"
  obtain r w' where run: "tag_created detail event_name event_source all_tags aws_region w = (r, w')"
    by (cases "tag_created detail event_name event_source all_tags aws_region w")
  show "\<exists>r. fst (process_event cfg environ now event w) = Inr r
               \<and> (r = Success [] all_tags event_name event_source \<or> status r = ''error'')"
  proof (cases r)
    case (Inl e)
    with run show ?thesis
      unfolding process_event_try [OF assms] by simp
  next
    case (Inr tagged)
    with run quiet have "calls w' = calls w"
      unfolding process_event_try [OF assms] by simp
    from tag_created_quiet [OF run [unfolded Inr] this] Inr run show ?thesis
      unfolding process_event_try [OF assms] by simp
  qed
next
  fix reason
  show "fst (process_event cfg environ now event w) \<noteq> Inr (Skipped reason)"
    unfolding process_event_try [OF assms]
    by (simp split: prod.splits sum.splits)
qed

text \<open>
  The creation of a topic, for which the chain has no branch, and the creation of a volume
  whose event has no response elements.
\<close>

theorem unrouted_or_empty_is_success_witness:
  "\<not> routed (JStr ''sns.amazonaws.com'') (JStr ''CreateTopic'')
   \<and> process_event (CONFIG Map.empty) Map.empty ''2024-12-25T10:30:01''
        (sample_event ''sns.amazonaws.com'' ''CreateTopic'' (JObj alice) []) cloud0
     = (Inr (Success [] (default_tags (CONFIG Map.empty) ++ alice_tags)
               (JStr ''CreateTopic'') (JStr ''sns.amazonaws.com'')), cloud0)
   \<and> routed (JStr ''ec2.amazonaws.com'') (JStr ''CreateVolume'')
   \<and> process_event (CONFIG Map.empty) Map.empty ''2024-12-25T10:30:01''
        (sample_event ''ec2.amazonaws.com'' ''CreateVolume'' (JObj alice) []) cloud0
     = (Inr (Success [] (default_tags (CONFIG Map.empty) ++ alice_tags)
               (JStr ''CreateVolume'') (JStr ''ec2.amazonaws.com'')), cloud0)"
proof -
  have sns: "takeWhile (\<lambda>c. c \<noteq> CHR ''.'') ''sns.amazonaws.com'' \<notin> set (excluded_services (CONFIG Map.empty))"
    by (simp add: CONFIG_def)
  have no_route: "\<not> routed (JStr ''sns.amazonaws.com'') (JStr ''CreateTopic'')"
    by (simp add: routed_def)
  have route: "routed (JStr ''ec2.amazonaws.com'') (JStr ''CreateVolume'')"
    by (simp add: routed_def)
  have no_response: "py_get (JObj (sample_detail ''ec2.amazonaws.com'' ''CreateVolume'' (JObj alice) []))
      ''responseElements'' (JObj []) = Inr (JObj [])"
    by (simp add: sample_detail_def)
  have no_request: "py_get (JObj (sample_detail ''ec2.amazonaws.com'' ''CreateVolume'' (JObj alice) []))
      ''requestParameters'' (JObj []) = Inr (JObj [])"
    by (simp add: sample_detail_def)
  have c1: "process_event (CONFIG Map.empty) Map.empty ''2024-12-25T10:30:01''
        (sample_event ''sns.amazonaws.com'' ''CreateTopic'' (JObj alice) []) cloud0
     = (Inr (Success [] (default_tags (CONFIG Map.empty) ++ alice_tags)
               (JStr ''CreateTopic'') (JStr ''sns.amazonaws.com'')), cloud0)"
    using unrouted_or_empty_is_success [OF sample_enters_try [OF sns], THEN conjunct1] no_route
    by blast
  have c2: "process_event (CONFIG Map.empty) Map.empty ''2024-12-25T10:30:01''
        (sample_event ''ec2.amazonaws.com'' ''CreateVolume'' (JObj alice) []) cloud0
     = (Inr (Success [] (default_tags (CONFIG Map.empty) ++ alice_tags)
               (JStr ''CreateVolume'') (JStr ''ec2.amazonaws.com'')), cloud0)"
    using unrouted_or_empty_is_success
            [OF sample_enters_try [OF ec2_not_excluded], THEN conjunct2, THEN conjunct1]
          route no_response no_request
    by blast
  show ?thesis
    by (intro conjI) (rule no_route, rule c1, rule route, rule c2)
qed

text \<open>
  C2 as stated fails on both events: the status of the result is success, not skipped, and
  the result has no reason.
\<close>

theorem no_match_counterexample:
  "fst (process_event (CONFIG Map.empty) Map.empty ''2024-12-25T10:30:01''
        (sample_event ''sns.amazonaws.com'' ''CreateTopic'' (JObj alice) []) cloud0)
     = Inr (Success [] (default_tags (CONFIG Map.empty) ++ alice_tags)
              (JStr ''CreateTopic'') (JStr ''sns.amazonaws.com''))
   \<and> status (Success [] (default_tags (CONFIG Map.empty) ++ alice_tags)
              (JStr ''CreateTopic'') (JStr ''sns.amazonaws.com'')) = ''success''
   \<and> fst (process_event (CONFIG Map.empty) Map.empty ''2024-12-25T10:30:01''
        (sample_event ''ec2.amazonaws.com'' ''CreateVolume'' (JObj alice) []) cloud0)
     = Inr (Success [] (default_tags (CONFIG Map.empty) ++ alice_tags)
              (JStr ''CreateVolume'') (JStr ''ec2.amazonaws.com''))
   \<and> status (Success [] (default_tags (CONFIG Map.empty) ++ alice_tags)
              (JStr ''CreateVolume'') (JStr ''ec2.amazonaws.com'')) = ''success''"
proof -
  have sns: "takeWhile (\<lambda>c. c \<noteq> CHR ''.'') ''sns.amazonaws.com'' \<notin> set (excluded_services (CONFIG Map.empty))"
    by (simp add: CONFIG_def)
  show ?thesis
    unfolding process_event_try [OF sample_enters_try [OF sns]]
      process_event_try [OF sample_enters_try [OF ec2_not_excluded]]
    by (simp add: tag_created_def tag_if_found_def bind_exc_def sample_detail_def)
qed

section \<open>Dispatching an event twice\<close>

lemma py_get_Inr_obj:
  assumes "py_get x k dflt = Inr v"
  shows "\<exists>kvs. x = JObj kvs"
  using assms by (cases x) auto

lemma get_user_identity_shape:
  assumes "get_user_identity now event = Inr user_tags"
  shows "\<exists>d u. py_get event ''detail'' (JObj []) = Inr (JObj d)
              \<and> py_get (JObj d) ''userIdentity'' (JObj []) = Inr (JObj u)"
proof -
  from assms obtain detail where d: "py_get event ''detail'' (JObj []) = Inr detail"
    by (auto simp: get_user_identity_def bind_exc_def split: sum.splits)
  with assms obtain user_identity where u: "py_get detail ''userIdentity'' (JObj []) = Inr user_identity"
    by (auto simp: get_user_identity_def bind_exc_def split: sum.splits)
  with assms d obtain arn where a: "py_get user_identity ''arn'' (JStr ''unknown'') = Inr arn"
    by (auto simp: get_user_identity_def bind_exc_def split: sum.splits)
  from py_get_Inr_obj [OF u] obtain dd where "detail = JObj dd" ..
  moreover from py_get_Inr_obj [OF a] obtain uu where "user_identity = JObj uu" ..
  ultimately show ?thesis using d u by blast
qed

text \<open>The clock enters the identity tags only through a missing \<^verbatim>\<open>eventTime\<close>.\<close>

lemma identity_two_clocks:
  assumes "get_user_identity now1 event = Inr tags1"
    and "get_user_identity now2 event = Inr tags2"
  shows "(\<forall>k. k \<noteq> ''CreatedAt'' \<longrightarrow> tags1 k = tags2 k)
       \<and> (has_event_time event \<or> now1 = now2 \<longrightarrow> tags1 = tags2)"
proof -
  from get_user_identity_shape [OF assms(1)] obtain d u where
    d: "py_get event ''detail'' (JObj []) = Inr (JObj d)"
    and u: "py_get (JObj d) ''userIdentity'' (JObj []) = Inr (JObj u)"
    by blast
  have time: "has_event_time event \<longleftrightarrow> map_of d ''eventTime'' \<noteq> None"
    by (simp add: has_event_time_def d)
  show ?thesis
    using assms unfolding get_user_identity_unfold [OF d u] time
    by (auto simp: Let_def bind_exc_def split: if_splits sum.splits)
qed

lemma tag_instances_labels:
  assumes "tag_instances xs tags1 region1 tagged w1 = (Inr labels1, w1')"
    and "tag_instances xs tags2 region2 tagged w2 = (Inr labels2, w2')"
  shows "labels1 = labels2"
  using assms
proof (induction xs arbitrary: tagged w1 w2)
  case Nil
  then show ?case by simp
next
  case (Cons item rest)
  from Cons.prems(1) obtain instance_id where
    iid: "py_get item ''instanceId'' JNull = Inr instance_id"
    by (auto split: sum.splits)
  show ?case
  proof (cases "py_truthy instance_id")
    case False
    with Cons iid show ?thesis by simp
  next
    case True
    with Cons.prems(1) iid obtain v1 where
      run1: "tag_instances rest tags1 region1 (tagged @ [(''ec2:instance:'', instance_id)]) v1
               = (Inr labels1, w1')"
      by (auto split: prod.splits sum.splits)
    from True Cons.prems(2) iid obtain v2 where
      run2: "tag_instances rest tags2 region2 (tagged @ [(''ec2:instance:'', instance_id)]) v2
               = (Inr labels2, w2')"
      by (auto split: prod.splits sum.splits)
    from Cons.IH [OF run1 run2] show ?thesis .
  qed
qed

lemma tag_if_found_labels:
  assumes "tag_if_found found applicator1 prefix w1 = (Inr labels1, w1')"
    and "tag_if_found found applicator2 prefix w2 = (Inr labels2, w2')"
  shows "labels1 = labels2"
  using assms
  by (auto simp: tag_if_found_def split: sum.splits if_splits prod.splits)

lemma tag_created_labels:
  assumes "tag_created detail event_name event_source tags1 region1 w1 = (Inr labels1, w1')"
    and "tag_created detail event_name event_source tags2 region2 w2 = (Inr labels2, w2')"
  shows "labels1 = labels2"
  using assms unfolding tag_created_def
  by (auto split: if_splits sum.splits
           dest: tag_if_found_labels tag_instances_labels)

lemma process_event_success:
  assumes "process_event cfg environ now event w
             = (Inr (Success tagged tags event_name event_source), w')"
  shows "\<exists>detail aws_region user_tags.
           py_get event ''detail'' (JObj []) = Inr detail
         \<and> py_get detail ''eventName'' (JStr []) = Inr event_name
         \<and> py_get detail ''eventSource'' (JStr []) = Inr event_source
         \<and> get_user_identity now event = Inr user_tags
         \<and> tags = default_tags cfg ++ user_tags
         \<and> tag_created detail event_name event_source tags aws_region w = (Inr tagged, w')"
  using assms unfolding process_event_def
  by (auto simp del: py_get.simps simp add: bind_exc_def Let_def
           split: sum.splits prod.splits if_splits)

text \<open>
  C8, amended. Take two dispatches of the same event under the same configuration, at any
  two clock readings and in any two clouds, that both report success. They report the
  same resources, the same event name and source, and tags that agree on every key but
  CreatedAt. When the event carries an \<^verbatim>\<open>eventTime\<close>, or the two clock readings are
  equal, the tags are the same altogether.
\<close>

theorem two_dispatches_agree:
  assumes "process_event cfg environ now1 event w1
             = (Inr (Success tagged1 tags1 name1 source1), w1')"
    and "process_event cfg environ now2 event w2
             = (Inr (Success tagged2 tags2 name2 source2), w2')"
  shows "tagged1 = tagged2 \<and> name1 = name2 \<and> source1 = source2
       \<and> (\<forall>k. k \<noteq> ''CreatedAt'' \<longrightarrow> tags1 k = tags2 k)
       \<and> (has_event_time event \<or> now1 = now2 \<longrightarrow> tags1 = tags2)"
proof -
  from process_event_success [OF assms(1)] obtain detail1 region1 user1 where
    d1: "py_get event ''detail'' (JObj []) = Inr detail1"
    and n1: "py_get detail1 ''eventName'' (JStr []) = Inr name1"
    and s1: "py_get detail1 ''eventSource'' (JStr []) = Inr source1"
    and u1: "get_user_identity now1 event = Inr user1"
    and t1: "tags1 = default_tags cfg ++ user1"
    and c1: "tag_created detail1 name1 source1 tags1 region1 w1 = (Inr tagged1, w1')"
    by blast
  from process_event_success [OF assms(2)] obtain detail2 region2 user2 where
    d2: "py_get event ''detail'' (JObj []) = Inr detail2"
    and n2: "py_get detail2 ''eventName'' (JStr []) = Inr name2"
    and s2: "py_get detail2 ''eventSource'' (JStr []) = Inr source2"
    and u2: "get_user_identity now2 event = Inr user2"
    and t2: "tags2 = default_tags cfg ++ user2"
    and c2: "tag_created detail2 name2 source2 tags2 region2 w2 = (Inr tagged2, w2')"
    by blast
  from d1 d2 have detail: "detail2 = detail1" by simp
  with n1 n2 have name: "name2 = name1" by simp
  from detail s1 s2 have source: "source2 = source1" by simp
  from tag_created_labels [OF c1 c2 [unfolded detail name source]]
  have tagged: "tagged1 = tagged2" .
  from identity_two_clocks [OF u1 u2]
  have rest: "\<forall>k. k \<noteq> ''CreatedAt'' \<longrightarrow> user1 k = user2 k"
    and same: "has_event_time event \<or> now1 = now2 \<longrightarrow> user1 = user2"
    by blast+
  from rest have "\<forall>k. k \<noteq> ''CreatedAt'' \<longrightarrow> tags1 k = tags2 k"
    unfolding t1 t2 by (simp add: map_add_def)
  moreover from same have "has_event_time event \<or> now1 = now2 \<longrightarrow> tags1 = tags2"
    unfolding t1 t2 by auto
  ultimately show ?thesis
    using tagged name source by simp
qed

text \<open>
  The launch of i-100 by \<open>alice\<close>, whose event carries its time, is dispatched at two
  clock readings, the second time in the cloud that the first dispatch left behind.
\<close>

theorem two_dispatches_agree_witness:
  "has_event_time (sample_event ''ec2.amazonaws.com'' ''RunInstances'' (JObj alice) (instances_body [''i-100'']))
   \<and> fst (process_event (CONFIG Map.empty) Map.empty ''2024-12-25T10:30:01''
        (sample_event ''ec2.amazonaws.com'' ''RunInstances'' (JObj alice) (instances_body [''i-100''])) cloud0)
     = Inr (Success [(''ec2:instance:'', JStr ''i-100'')] (default_tags (CONFIG Map.empty) ++ alice_tags)
              (JStr ''RunInstances'') (JStr ''ec2.amazonaws.com''))
   \<and> fst (process_event (CONFIG Map.empty) Map.empty ''2024-12-25T10:31:07''
        (sample_event ''ec2.amazonaws.com'' ''RunInstances'' (JObj alice) (instances_body [''i-100'']))
        (snd (process_event (CONFIG Map.empty) Map.empty ''2024-12-25T10:30:01''
           (sample_event ''ec2.amazonaws.com'' ''RunInstances'' (JObj alice) (instances_body [''i-100'']))
           cloud0)))
     = Inr (Success [(''ec2:instance:'', JStr ''i-100'')] (default_tags (CONFIG Map.empty) ++ alice_tags)
              (JStr ''RunInstances'') (JStr ''ec2.amazonaws.com''))
   \<and> default_tags (CONFIG Map.empty) ++ alice_tags = default_tags (CONFIG Map.empty) ++ alice_tags"
proof -
  have time: "has_event_time (sample_event ''ec2.amazonaws.com'' ''RunInstances'' (JObj alice)
                                (instances_body [''i-100'']))"
    by (simp add: has_event_time_def sample_event_def sample_detail_def)
  have first: "fst (process_event (CONFIG Map.empty) Map.empty ''2024-12-25T10:30:01''
        (sample_event ''ec2.amazonaws.com'' ''RunInstances'' (JObj alice) (instances_body [''i-100''])) cloud0)
     = Inr (Success [(''ec2:instance:'', JStr ''i-100'')] (default_tags (CONFIG Map.empty) ++ alice_tags)
              (JStr ''RunInstances'') (JStr ''ec2.amazonaws.com''))"
    unfolding process_event_try [OF sample_enters_try [OF ec2_not_excluded]] tag_created_instances
    by (simp add: tag_ec2_resource_cases cloud0_def)
  have left: "faults (snd (process_event (CONFIG Map.empty) Map.empty ''2024-12-25T10:30:01''
           (sample_event ''ec2.amazonaws.com'' ''RunInstances'' (JObj alice) (instances_body [''i-100'']))
           cloud0)) = (\<lambda>h c. None)"
    unfolding process_event_try [OF sample_enters_try [OF ec2_not_excluded]] tag_created_instances
    by (simp add: tag_ec2_resource_cases upsert_tags_def cloud0_def)
  have second: "fst (process_event (CONFIG Map.empty) Map.empty ''2024-12-25T10:31:07''
        (sample_event ''ec2.amazonaws.com'' ''RunInstances'' (JObj alice) (instances_body [''i-100'']))
        (snd (process_event (CONFIG Map.empty) Map.empty ''2024-12-25T10:30:01''
           (sample_event ''ec2.amazonaws.com'' ''RunInstances'' (JObj alice) (instances_body [''i-100'']))
           cloud0)))
     = Inr (Success [(''ec2:instance:'', JStr ''i-100'')] (default_tags (CONFIG Map.empty) ++ alice_tags)
              (JStr ''RunInstances'') (JStr ''ec2.amazonaws.com''))"
    unfolding process_event_try [OF sample_enters_try [OF ec2_not_excluded],
                where w = "snd (process_event (CONFIG Map.empty) Map.empty ''2024-12-25T10:30:01''
           (sample_event ''ec2.amazonaws.com'' ''RunInstances'' (JObj alice) (instances_body [''i-100'']))
           cloud0)"]
      tag_created_instances
    by (simp add: tag_ec2_resource_cases left)
  have run1: "process_event (CONFIG Map.empty) Map.empty ''2024-12-25T10:30:01''
        (sample_event ''ec2.amazonaws.com'' ''RunInstances'' (JObj alice) (instances_body [''i-100''])) cloud0
     = (Inr (Success [(''ec2:instance:'', JStr ''i-100'')] (default_tags (CONFIG Map.empty) ++ alice_tags)
              (JStr ''RunInstances'') (JStr ''ec2.amazonaws.com'')),
        snd (process_event (CONFIG Map.empty) Map.empty ''2024-12-25T10:30:01''
           (sample_event ''ec2.amazonaws.com'' ''RunInstances'' (JObj alice) (instances_body [''i-100'']))
           cloud0))"
    using first by (simp add: prod_eq_iff)
  have run2: "process_event (CONFIG Map.empty) Map.empty ''2024-12-25T10:31:07''
        (sample_event ''ec2.amazonaws.com'' ''RunInstances'' (JObj alice) (instances_body [''i-100'']))
        (snd (process_event (CONFIG Map.empty) Map.empty ''2024-12-25T10:30:01''
           (sample_event ''ec2.amazonaws.com'' ''RunInstances'' (JObj alice) (instances_body [''i-100'']))
           cloud0))
     = (Inr (Success [(''ec2:instance:'', JStr ''i-100'')] (default_tags (CONFIG Map.empty) ++ alice_tags)
              (JStr ''RunInstances'') (JStr ''ec2.amazonaws.com'')),
        snd (process_event (CONFIG Map.empty) Map.empty ''2024-12-25T10:31:07''
        (sample_event ''ec2.amazonaws.com'' ''RunInstances'' (JObj alice) (instances_body [''i-100'']))
        (snd (process_event (CONFIG Map.empty) Map.empty ''2024-12-25T10:30:01''
           (sample_event ''ec2.amazonaws.com'' ''RunInstances'' (JObj alice) (instances_body [''i-100'']))
           cloud0))))"
    using second by (simp add: prod_eq_iff)
  note agree = two_dispatches_agree [OF run1 run2, THEN conjunct2, THEN conjunct2, THEN conjunct2,
                                     THEN conjunct2, THEN mp, OF disjI1, OF time]
  show ?thesis
    by (intro conjI) (rule time, rule first, rule second, rule agree)
qed

text \<open>
  C8 as stated fails: the launch whose event names no time is dispatched at two clock
  readings; the resources reported are the same, the tags are not.
\<close>

theorem clock_dependent_tags_counterexample:
  "fst (process_event (CONFIG Map.empty) Map.empty ''2024-12-25T10:30:01'' untimed_launch cloud0)
     = Inr (Success [(''ec2:instance:'', JStr ''i-100'')]
              (default_tags (CONFIG Map.empty) ++ anonymous_tags ''2024-12-25T10:30:01'')
              (JStr ''RunInstances'') (JStr ''ec2.amazonaws.com''))
   \<and> fst (process_event (CONFIG Map.empty) Map.empty ''2024-12-25T10:31:07'' untimed_launch cloud0)
     = Inr (Success [(''ec2:instance:'', JStr ''i-100'')]
              (default_tags (CONFIG Map.empty) ++ anonymous_tags ''2024-12-25T10:31:07'')
              (JStr ''RunInstances'') (JStr ''ec2.amazonaws.com''))
   \<and> (default_tags (CONFIG Map.empty) ++ anonymous_tags ''2024-12-25T10:30:01'') ''CreatedAt''
       = Some (JStr ''2024-12-25T10:30:01Z'')
   \<and> (default_tags (CONFIG Map.empty) ++ anonymous_tags ''2024-12-25T10:31:07'') ''CreatedAt''
       = Some (JStr ''2024-12-25T10:31:07Z'')
   \<and> default_tags (CONFIG Map.empty) ++ anonymous_tags ''2024-12-25T10:30:01''
       \<noteq> default_tags (CONFIG Map.empty) ++ anonymous_tags ''2024-12-25T10:31:07''"
proof -
  have run: "fst (process_event (CONFIG Map.empty) Map.empty now untimed_launch cloud0)
     = Inr (Success [(''ec2:instance:'', JStr ''i-100'')]
              (default_tags (CONFIG Map.empty) ++ anonymous_tags now)
              (JStr ''RunInstances'') (JStr ''ec2.amazonaws.com''))" for now
    by (simp add: process_event_def get_user_identity_def tag_created_def bind_exc_def
          service_of_JStr untimed_launch_def instances_body_def anonymous_tags_def
          tag_ec2_resource_cases cloud0_def CONFIG_def Let_def)
  have at1: "(default_tags (CONFIG Map.empty) ++ anonymous_tags ''2024-12-25T10:30:01'') ''CreatedAt''
       = Some (JStr ''2024-12-25T10:30:01Z'')"
    by (simp add: anonymous_tags_def)
  have at2: "(default_tags (CONFIG Map.empty) ++ anonymous_tags ''2024-12-25T10:31:07'') ''CreatedAt''
       = Some (JStr ''2024-12-25T10:31:07Z'')"
    by (simp add: anonymous_tags_def)
  have differ: "default_tags (CONFIG Map.empty) ++ anonymous_tags ''2024-12-25T10:30:01''
       \<noteq> default_tags (CONFIG Map.empty) ++ anonymous_tags ''2024-12-25T10:31:07''"
  proof
    assume "default_tags (CONFIG Map.empty) ++ anonymous_tags ''2024-12-25T10:30:01''
       = default_tags (CONFIG Map.empty) ++ anonymous_tags ''2024-12-25T10:31:07''"
    then have "(default_tags (CONFIG Map.empty) ++ anonymous_tags ''2024-12-25T10:30:01'') ''CreatedAt''
       = (default_tags (CONFIG Map.empty) ++ anonymous_tags ''2024-12-25T10:31:07'') ''CreatedAt''"
      by simp
    then show False
      unfolding at1 at2 by simp
  qed
  show ?thesis
    by (intro conjI) (rule run, rule run, rule at1, rule at2, rule differ)
qed

end
